theory Spec2Isabelle
  imports Main "HOL-Library.Word" "HOL-Library.List_Lexorder"
begin

unbundle bit_operations_syntax

section \<open>Bytes, results and errors\<close>

type_synonym byte = "8 word"

text \<open>
  A Go function of this module returns a value, returns an error, or panics.  The three
  ways out are kept apart: \<open>Ok\<close> is a normal return, \<open>Err\<close> an error value handed to
  the caller, \<open>Panic\<close> an abort that unwinds the caller as well.
\<close>

datatype error =
    IdentifierTooLong
  | MethodNotFound string
  | ArgumentCountMismatch
  | TypeCheckFailed
  | Wrap string error
  | ErrInvalidAddress
  | ErrUnknownRequest
  | InvalidCoinDenominations string string
  | NegativeCoinAmount
  | ErrInvalidCoins
  | ErrInsufficientFunds
  | IndexOutOfRange
  | UnmarshalFailed
  | Other string

datatype 'a outcome = Ok 'a | Err error | Panic error

definition bytes_of_string :: "string \<Rightarrow> byte list" where
  "bytes_of_string s = map (\<lambda>c. word_of_nat (of_char c)) s"

text \<open>Big-endian bytes of a number in a field of \<open>n\<close> bytes, most significant byte first.\<close>

fun be_bytes :: "nat \<Rightarrow> nat \<Rightarrow> byte list" where
  "be_bytes 0 v = []"
| "be_bytes (Suc n) v = word_of_nat (v div 256 ^ n) # be_bytes n (v mod 256 ^ n)"

fun be_val :: "byte list \<Rightarrow> nat" where
  "be_val [] = 0"
| "be_val (b # bs) = unat b * 256 ^ length bs + be_val bs"

text \<open>\<open>var a [32]byte; copy(a[:], src)\<close>: the first 32 bytes of \<open>src\<close>, zero-filled.\<close>

definition copy32 :: "byte list \<Rightarrow> byte list" where
  "copy32 src = take 32 src @ replicate (32 - length src) 0"

section \<open>encoding/hex\<close>

definition fromHexChar :: "char \<Rightarrow> byte option" where
  "fromHexChar c =
     (let n = (of_char c :: nat) in
      if 48 \<le> n \<and> n \<le> 57 then Some (word_of_nat (n - 48))
      else if 97 \<le> n \<and> n \<le> 102 then Some (word_of_nat (n - 97 + 10))
      else if 65 \<le> n \<and> n \<le> 70 then Some (word_of_nat (n - 65 + 10))
      else None)"

datatype hex_error = InvalidByteError char | ErrLength

text \<open>
  \<open>hex.DecodeString\<close>: the bytes decoded before the first fault, and the fault if there
  is one: a character that is no hexadecimal digit, or an odd length.
\<close>

fun hex_DecodeString :: "string \<Rightarrow> byte list \<times> hex_error option" where
  "hex_DecodeString [] = ([], None)"
| "hex_DecodeString [p] =
     (case fromHexChar p of None \<Rightarrow> ([], Some (InvalidByteError p))
      | Some a \<Rightarrow> ([], Some ErrLength))"
| "hex_DecodeString (p # q # rest) =
     (case fromHexChar p of None \<Rightarrow> ([], Some (InvalidByteError p))
      | Some a \<Rightarrow>
        (case fromHexChar q of None \<Rightarrow> ([], Some (InvalidByteError q))
         | Some b \<Rightarrow>
           (case hex_DecodeString rest of (bs, e) \<Rightarrow> ((push_bit 4 a OR b) # bs, e))))"

text \<open>The specification's notion of a valid hexadecimal string.\<close>

definition is_hex_digit :: "char \<Rightarrow> bool" where
  "is_hex_digit c \<longleftrightarrow> c \<in> set ''0123456789abcdefABCDEF''"

definition valid_hex :: "string \<Rightarrow> bool" where
  "valid_hex s \<longleftrightarrow> even (length s) \<and> list_all is_hex_digit s"

section \<open>go-ethereum: addresses\<close>

definition has0xPrefix :: "string \<Rightarrow> bool" where
  "has0xPrefix str \<longleftrightarrow>
     length str \<ge> 2 \<and> str ! 0 = CHR ''0'' \<and> (str ! 1 = CHR ''x'' \<or> str ! 1 = CHR ''X'')"

definition FromHex :: "string \<Rightarrow> byte list" where
  "FromHex s =
     (let s1 = (if has0xPrefix s then drop 2 s else s);
          s2 = (if length s1 mod 2 = 1 then CHR ''0'' # s1 else s1)
      in fst (hex_DecodeString s2))"

definition BytesToAddress :: "byte list \<Rightarrow> byte list" where
  "BytesToAddress b =
     (let b1 = (if length b > 20 then drop (length b - 20) b else b)
      in replicate (20 - length b1) 0 @ b1)"

definition HexToAddress :: "string \<Rightarrow> byte list" where
  "HexToAddress s = BytesToAddress (FromHex s)"

section \<open>Keccak-256\<close>

text \<open>
  \<open>crypto.Keccak256Hash\<close>: the sponge over the permutation Keccak-f[1600] with a rate of
  136 bytes, the padding \<open>0x01 \<dots> 0x80\<close> of the original Keccak submission, and the first
  32 bytes of the final state as the digest.  The state is 25 lanes of 64 bits, lane
  \<open>(x, y)\<close> at index \<open>x + 5 * y\<close>, bytes little-endian within a lane.
\<close>

type_synonym lane = "64 word"

definition rotl64 :: "lane \<Rightarrow> nat \<Rightarrow> lane" where
  "rotl64 w n = push_bit n w OR drop_bit (64 - n) w"

definition keccak_rc :: "lane list" where
  "keccak_rc =
    [0x0000000000000001, 0x0000000000008082, 0x800000000000808A, 0x8000000080008000,
     0x000000000000808B, 0x0000000080000001, 0x8000000080008081, 0x8000000000008009,
     0x000000000000008A, 0x0000000000000088, 0x0000000080008009, 0x000000008000000A,
     0x000000008000808B, 0x800000000000008B, 0x8000000000008089, 0x8000000000008003,
     0x8000000000008002, 0x8000000000000080, 0x000000000000800A, 0x800000008000000A,
     0x8000000080008081, 0x8000000000008080, 0x0000000080000001, 0x8000000080008008]"

definition keccak_rot :: "nat list" where
  "keccak_rot =
    [0, 1, 62, 28, 27, 36, 44, 6, 55, 20, 3, 10, 43, 25, 39, 41, 45, 15, 21, 8, 18, 2, 61, 56, 14]"

definition theta :: "lane list \<Rightarrow> lane list" where
  "theta a =
     (let c = map (\<lambda>x. a ! x XOR a ! (x + 5) XOR a ! (x + 10) XOR a ! (x + 15) XOR a ! (x + 20)) [0..<5];
          d = map (\<lambda>x. c ! ((x + 4) mod 5) XOR rotl64 (c ! ((x + 1) mod 5)) 1) [0..<5]
      in map (\<lambda>i. a ! i XOR d ! (i mod 5)) [0..<25])"

definition rho_pi :: "lane list \<Rightarrow> lane list" where
  "rho_pi a =
     map (\<lambda>j. let x' = j mod 5; y' = j div 5; x = (x' + 3 * y') mod 5; i = x + 5 * x'
              in rotl64 (a ! i) (keccak_rot ! i)) [0..<25]"

definition chi :: "lane list \<Rightarrow> lane list" where
  "chi b =
     map (\<lambda>j. let x = j mod 5; y = j div 5
              in b ! j XOR (NOT (b ! ((x + 1) mod 5 + 5 * y)) AND b ! ((x + 2) mod 5 + 5 * y)))
         [0..<25]"

definition iota :: "lane \<Rightarrow> lane list \<Rightarrow> lane list" where
  "iota rc a = (case a of [] \<Rightarrow> [] | x # xs \<Rightarrow> (x XOR rc) # xs)"

definition keccak_round :: "lane list \<Rightarrow> lane \<Rightarrow> lane list" where
  "keccak_round a rc = iota rc (chi (rho_pi (theta a)))"

definition keccak_f :: "lane list \<Rightarrow> lane list" where
  "keccak_f a = foldl keccak_round a keccak_rc"

fun lane_of_bytes :: "byte list \<Rightarrow> lane" where
  "lane_of_bytes [] = 0"
| "lane_of_bytes (b # bs) = ucast b OR push_bit 8 (lane_of_bytes bs)"

fun bytes_of_lane :: "nat \<Rightarrow> lane \<Rightarrow> byte list" where
  "bytes_of_lane 0 w = []"
| "bytes_of_lane (Suc n) w = ucast w # bytes_of_lane n (drop_bit 8 w)"

fun chunks :: "nat \<Rightarrow> 'a list \<Rightarrow> 'a list list" where
  "chunks n [] = []"
| "chunks n (x # xs) = (if n = 0 then [x # xs] else take n (x # xs) # chunks n (drop n (x # xs)))"

definition keccak_pad :: "byte list \<Rightarrow> byte list" where
  "keccak_pad m =
     (let q = 136 - length m mod 136
      in if q = 1 then m @ [0x81] else m @ [0x01] @ replicate (q - 2) 0 @ [0x80])"

definition absorb :: "lane list \<Rightarrow> byte list \<Rightarrow> lane list" where
  "absorb s blk = keccak_f (map2 (XOR) s (map lane_of_bytes (chunks 8 blk) @ replicate 8 0))"

definition Keccak256 :: "byte list \<Rightarrow> byte list" where
  "Keccak256 m =
     take 32 (concat (map (bytes_of_lane 8)
       (foldl absorb (replicate 25 0) (chunks 136 (keccak_pad m)))))"

section \<open>go-ethereum: contract ABI packing\<close>

datatype abi_type = Bytes32Ty | Uint256Ty | AddressTy | Uint256SliceTy | AddressSliceTy | BytesTy

text \<open>The Go values handed to \<open>abi.Pack\<close>: \<open>[32]uint8\<close>, \<open>*big.Int\<close>,
  \<open>common.Address\<close>, slices of the last two, and \<open>[]byte\<close>.\<close>

datatype abi_value =
    FixedBytes32 "byte list"
  | BigInt int
  | Address "byte list"
  | BigIntSlice "int list"
  | AddressSlice "byte list list"
  | ByteSlice "byte list"

record abi_method =
  method_Name :: string
  method_Inputs :: "abi_type list"

fun typeCheck :: "abi_type \<Rightarrow> abi_value \<Rightarrow> bool" where
  "typeCheck Bytes32Ty (FixedBytes32 b) = True"
| "typeCheck Uint256Ty (BigInt n) = True"
| "typeCheck AddressTy (Address a) = True"
| "typeCheck Uint256SliceTy (BigIntSlice ns) = True"
| "typeCheck AddressSliceTy (AddressSlice as) = True"
| "typeCheck BytesTy (ByteSlice b) = True"
| "typeCheck t v = False"

fun isDynamicType :: "abi_type \<Rightarrow> bool" where
  "isDynamicType Uint256SliceTy = True"
| "isDynamicType AddressSliceTy = True"
| "isDynamicType BytesTy = True"
| "isDynamicType t = False"

text \<open>\<open>math.U256Bytes\<close>: the number reduced to 256 bits (two's complement for a negative
  \<open>big.Int\<close>), as 32 big-endian bytes.\<close>

definition packNum :: "int \<Rightarrow> byte list" where
  "packNum n = be_bytes 32 (nat (n mod 2 ^ 256))"

definition LeftPadBytes :: "byte list \<Rightarrow> nat \<Rightarrow> byte list" where
  "LeftPadBytes bs l = (if l \<le> length bs then bs else replicate (l - length bs) 0 @ bs)"

definition RightPadBytes :: "byte list \<Rightarrow> nat \<Rightarrow> byte list" where
  "RightPadBytes bs l = (if l \<le> length bs then bs else bs @ replicate (l - length bs) 0)"

fun pack :: "abi_value \<Rightarrow> byte list" where
  "pack (FixedBytes32 b) = RightPadBytes b 32"
| "pack (BigInt n) = packNum n"
| "pack (Address a) = LeftPadBytes a 32"
| "pack (BigIntSlice ns) = packNum (int (length ns)) @ concat (map packNum ns)"
| "pack (AddressSlice as) = packNum (int (length as)) @ concat (map (\<lambda>a. LeftPadBytes a 32) as)"
| "pack (ByteSlice b) =
     packNum (int (length b)) @ RightPadBytes b ((length b + 31) div 32 * 32)"

text \<open>
  The loop of \<open>Arguments.Pack\<close>: \<open>ret\<close> collects the heads, \<open>variableInput\<close> the
  tails, \<open>inputOffset\<close> is where the next tail will start.
\<close>

fun pack_loop :: "nat \<Rightarrow> byte list \<Rightarrow> byte list \<Rightarrow> (abi_type \<times> abi_value) list
    \<Rightarrow> error + byte list" where
  "pack_loop inputOffset ret variableInput [] = Inr (ret @ variableInput)"
| "pack_loop inputOffset ret variableInput ((t, a) # rest) =
     (if \<not> typeCheck t a then Inl TypeCheckFailed
      else let packed = pack a in
        if isDynamicType t
        then pack_loop (inputOffset + length packed) (ret @ packNum (int inputOffset))
               (variableInput @ packed) rest
        else pack_loop inputOffset (ret @ packed) variableInput rest)"

definition Arguments_Pack :: "abi_type list \<Rightarrow> abi_value list \<Rightarrow> error + byte list" where
  "Arguments_Pack abiArgs args =
     (if length args \<noteq> length abiArgs then Inl ArgumentCountMismatch
      else pack_loop (32 * length abiArgs) [] [] (zip abiArgs args))"

fun type_String :: "abi_type \<Rightarrow> string" where
  "type_String Bytes32Ty = ''bytes32''"
| "type_String Uint256Ty = ''uint256''"
| "type_String AddressTy = ''address''"
| "type_String Uint256SliceTy = ''uint256[]''"
| "type_String AddressSliceTy = ''address[]''"
| "type_String BytesTy = ''bytes''"

fun join_comma :: "string list \<Rightarrow> string" where
  "join_comma [] = []"
| "join_comma [s] = s"
| "join_comma (s # t # ss) = s @ '','' @ join_comma (t # ss)"

definition method_Sig :: "abi_method \<Rightarrow> string" where
  "method_Sig m = method_Name m @ ''('' @ join_comma (map type_String (method_Inputs m)) @ '')''"

definition method_ID :: "abi_method \<Rightarrow> byte list" where
  "method_ID m = take 4 (Keccak256 (bytes_of_string (method_Sig m)))"

definition abi_Pack :: "abi_method list \<Rightarrow> string \<Rightarrow> abi_value list \<Rightarrow> error + byte list" where
  "abi_Pack abi name args =
     (case find (\<lambda>m. method_Name m = name) abi of
        None \<Rightarrow> Inl (MethodNotFound name)
      | Some method \<Rightarrow>
          (case Arguments_Pack (method_Inputs method) args of
             Inl err \<Rightarrow> Inl err
           | Inr arguments \<Rightarrow> Inr (method_ID method @ arguments)))"

text \<open>
  The contract ABI encoding of a tuple, as the destination chain defines it: the heads
  of all components, then the tails.  A static component is its own head and has no tail;
  the head of a dynamic component is the offset of its tail from the start of the encoding.
\<close>

fun is_dynamic_value :: "abi_value \<Rightarrow> bool" where
  "is_dynamic_value (BigIntSlice ns) = True"
| "is_dynamic_value (AddressSlice as) = True"
| "is_dynamic_value (ByteSlice b) = True"
| "is_dynamic_value v = False"

definition abi_tail :: "abi_value \<Rightarrow> byte list" where
  "abi_tail v = (if is_dynamic_value v then pack v else [])"

definition abi_head :: "abi_value list \<Rightarrow> nat \<Rightarrow> byte list" where
  "abi_head vs i =
     (if is_dynamic_value (vs ! i)
      then packNum (int (32 * length vs + length (concat (map abi_tail (take i vs)))))
      else pack (vs ! i))"

definition abi_encode :: "abi_value list \<Rightarrow> byte list" where
  "abi_encode vs = concat (map (abi_head vs) [0..<length vs]) @ concat (map abi_tail vs)"

section \<open>Outgoing transactions and their checkpoints\<close>

text \<open>Amounts are \<open>sdk.Int\<close> values, modelled as unbounded integers: the SDK's limit of
  256 bits, beyond which its arithmetic panics, is not part of the model.\<close>

record Coin =
  coin_Denom :: string
  coin_Amount :: int

record ERC20Token =
  tok_Contract :: string
  tok_Amount :: int

record SendToEthereum =
  Id :: "64 word"
  Sender :: string
  EthereumRecipient :: string
  Erc20Token :: ERC20Token
  Erc20Fee :: ERC20Token

record BatchTx =
  bt_Nonce :: "64 word"
  bt_Timeout :: "64 word"
  bt_Transactions :: "SendToEthereum list"
  bt_TokenContract :: string
  bt_Height :: "64 word"

record LogicCallTx =
  lc_Tokens :: "Coin list"
  lc_Fees :: "Coin list"
  lc_LogicContractAddress :: string
  lc_Payload :: "byte list"
  lc_Timeout :: "64 word"
  lc_InvalidationId :: "byte list"
  lc_InvalidationNonce :: "64 word"

text \<open>
  Modelled from the spec: \<open>strToFixByteArray\<close> is not among the sources.  Section 4.1,
  step 1: the chain identifier must fit in a fixed 32-byte field under its natural
  encoding, and the function fails if it does not.
\<close>

definition strToFixByteArray :: "string \<Rightarrow> error + byte list" where
  "strToFixByteArray s =
     (if length (bytes_of_string s) > 32 then Inl IdentifierTooLong
      else Inr (copy32 (bytes_of_string s)))"

text \<open>
  Modelled from the spec: the constants \<open>OutgoingBatchTxCheckpointABIJSON\<close> and
  \<open>OutgoingLogicCallABIJSON\<close> are not among the sources.  Each declares one method,
  named as \<open>GetCheckpoint\<close> calls it, whose inputs are the schema of section 4.1, step 3.
  Parsing a constant cannot fail at run time, so the branch \<open>bad ABI definition in code\<close>
  of \<open>GetCheckpoint\<close> has no counterpart here.
\<close>

definition OutgoingBatchTxCheckpointABI :: "abi_method list" where
  "OutgoingBatchTxCheckpointABI =
     [\<lparr>method_Name = ''submitBatch'',
       method_Inputs = [Bytes32Ty, Bytes32Ty, Uint256SliceTy, AddressSliceTy, Uint256SliceTy,
                        Uint256Ty, AddressTy, Uint256Ty]\<rparr>]"

definition OutgoingLogicCallABI :: "abi_method list" where
  "OutgoingLogicCallABI =
     [\<lparr>method_Name = ''checkpoint'',
       method_Inputs = [Bytes32Ty, Bytes32Ty, Uint256SliceTy, AddressSliceTy, Uint256SliceTy,
                        AddressSliceTy, AddressTy, BytesTy, Uint256Ty, Bytes32Ty, Uint256Ty]\<rparr>]"

text \<open>\<open>big.NewInt(int64(x))\<close> for a \<open>uint64\<close> \<open>x\<close>: the bits of \<open>x\<close> read as a signed
  64-bit integer.\<close>

definition big_NewInt_int64 :: "64 word \<Rightarrow> int" where
  "big_NewInt_int64 x = sint x"

text \<open>The arguments \<open>BatchTx.GetCheckpoint\<close> hands to \<open>abi.Pack\<close> (lines 31 to 58).\<close>

definition BatchTx_packArgs :: "BatchTx \<Rightarrow> byte list \<Rightarrow> abi_value list" where
  "BatchTx_packArgs b gravityID =
     (let batchMethodName = copy32 (bytes_of_string ''transactionBatch'');
          txAmounts = map (\<lambda>tx. tok_Amount (Erc20Token tx)) (bt_Transactions b);
          txDestinations = map (\<lambda>tx. HexToAddress (EthereumRecipient tx)) (bt_Transactions b);
          txFees = map (\<lambda>tx. tok_Amount (Erc20Fee tx)) (bt_Transactions b)
      in [FixedBytes32 gravityID,
          FixedBytes32 batchMethodName,
          BigIntSlice txAmounts,
          AddressSlice txDestinations,
          BigIntSlice txFees,
          BigInt (big_NewInt_int64 (bt_Nonce b)),
          Address (HexToAddress (bt_TokenContract b)),
          BigInt (big_NewInt_int64 (bt_Timeout b))])"

definition BatchTx_GetCheckpoint :: "BatchTx \<Rightarrow> string \<Rightarrow> byte list outcome" where
  "BatchTx_GetCheckpoint b gravityIDstring =
     (case strToFixByteArray gravityIDstring of
        Inl err \<Rightarrow> Panic err
      | Inr gravityID \<Rightarrow>
          (case abi_Pack OutgoingBatchTxCheckpointABI ''submitBatch'' (BatchTx_packArgs b gravityID) of
             Inl err \<Rightarrow> Err (Wrap ''packing checkpoint'' err)
           | Inr abiEncodedBatch \<Rightarrow> Ok (Keccak256 (drop 4 abiEncodedBatch))))"

text \<open>The arguments \<open>LogicCallTx.GetCheckpoint\<close> hands to \<open>abi.Pack\<close> (lines 80 to 127).\<close>

definition LogicCallTx_packArgs :: "LogicCallTx \<Rightarrow> byte list \<Rightarrow> abi_value list" where
  "LogicCallTx_packArgs c gravityID =
     (let logicCallMethodName = copy32 (bytes_of_string ''logicCall'');
          transferAmounts = map coin_Amount (lc_Tokens c);
          transferTokenContracts = map (\<lambda>tx. HexToAddress (coin_Denom tx)) (lc_Tokens c);
          feeAmounts = map coin_Amount (lc_Fees c);
          feeTokenContracts = map (\<lambda>tx. HexToAddress (coin_Denom tx)) (lc_Fees c);
          payload = lc_Payload c;
          invalidationID = copy32 (lc_InvalidationId c)
      in [FixedBytes32 gravityID,
          FixedBytes32 logicCallMethodName,
          BigIntSlice transferAmounts,
          AddressSlice transferTokenContracts,
          BigIntSlice feeAmounts,
          AddressSlice feeTokenContracts,
          Address (HexToAddress (lc_LogicContractAddress c)),
          ByteSlice payload,
          BigInt (big_NewInt_int64 (lc_Timeout c)),
          FixedBytes32 invalidationID,
          BigInt (big_NewInt_int64 (lc_InvalidationNonce c))])"

definition LogicCallTx_GetCheckpoint :: "LogicCallTx \<Rightarrow> string \<Rightarrow> byte list outcome" where
  "LogicCallTx_GetCheckpoint c gravityIDstring =
     (case strToFixByteArray gravityIDstring of
        Inl err \<Rightarrow> Panic err
      | Inr gravityID \<Rightarrow>
          (case abi_Pack OutgoingLogicCallABI ''checkpoint'' (LogicCallTx_packArgs c gravityID) of
             Inl err \<Rightarrow> Err (Wrap ''packing checkpoint'' err)
           | Inr abiEncodedCall \<Rightarrow> Ok (Keccak256 (drop 4 abiEncodedCall))))"

text \<open>The heads of a tuple written as a recursion that carries the next tail offset, the
  form in which the loop of \<open>Arguments.Pack\<close> produces them.\<close>

fun heads_from :: "nat \<Rightarrow> abi_value list \<Rightarrow> byte list" where
  "heads_from off [] = []"
| "heads_from off (v # vs) =
     (if is_dynamic_value v then packNum (int off) @ heads_from (off + length (pack v)) vs
      else pack v @ heads_from off vs)"

section \<open>Confirmations\<close>

text \<open>
  Functions of the Cosmos SDK, of go-ethereum and of this module's own packages that the
  sources call but do not contain are parameters of the model, collected in one record.
  \<open>AccAddressFromBech32\<close> and \<open>AccAddress.String\<close> are the SDK's address codec,
  \<open>ValidateEthAddress\<close> is this module's check of an Ethereum address.
\<close>

record Env =
  AccAddressFromBech32 :: "string \<Rightarrow> error + byte list"
  AccAddress_String :: "byte list \<Rightarrow> string"
  ValidateEthAddress :: "string \<Rightarrow> error option"

record ConfirmBatch =
  cb_Nonce :: "64 word"
  cb_TokenContract :: string
  cb_EthSigner :: string
  cb_OrchestratorAddress :: string
  cb_Signature :: string

record ConfirmLogicCall =
  cl_InvalidationId :: string
  cl_InvalidationNonce :: "64 word"
  cl_EthSigner :: string
  cl_OrchestratorAddress :: string
  cl_Signature :: string

record ConfirmValset =
  cv_Nonce :: "64 word"
  cv_OrchestratorAddress :: string
  cv_EthAddress :: string
  cv_Signature :: string

definition ConfirmBatch_GetType :: "ConfirmBatch \<Rightarrow> string" where
  "ConfirmBatch_GetType msg = ''batch''"

definition ConfirmBatch_Validate :: "'a Env_scheme \<Rightarrow> ConfirmBatch \<Rightarrow> error option" where
  "ConfirmBatch_Validate env msg =
     (case AccAddressFromBech32 env (cb_OrchestratorAddress msg) of
        Inl err \<Rightarrow> Some (Wrap (cb_OrchestratorAddress msg) ErrInvalidAddress)
      | Inr _ \<Rightarrow>
     (case ValidateEthAddress env (cb_EthSigner msg) of
        Some err \<Rightarrow> Some (Wrap ''eth signer'' err)
      | None \<Rightarrow>
     (case ValidateEthAddress env (cb_TokenContract msg) of
        Some err \<Rightarrow> Some (Wrap ''token contract'' err)
      | None \<Rightarrow>
     (case snd (hex_DecodeString (cb_Signature msg)) of
        Some err \<Rightarrow> Some (Wrap (''could not decode hex string '' @ cb_Signature msg) ErrUnknownRequest)
      | None \<Rightarrow> None))))"

definition ConfirmBatch_GetInvalidationNonce :: "ConfirmBatch \<Rightarrow> 64 word" where
  "ConfirmBatch_GetInvalidationNonce msg = 0"

definition ConfirmBatch_GetInvalidationId :: "ConfirmBatch \<Rightarrow> string" where
  "ConfirmBatch_GetInvalidationId msg = []"

definition ConfirmLogicCall_GetType :: "ConfirmLogicCall \<Rightarrow> string" where
  "ConfirmLogicCall_GetType msg = ''logic_Call''"

definition ConfirmLogicCall_Validate :: "'a Env_scheme \<Rightarrow> ConfirmLogicCall \<Rightarrow> error option" where
  "ConfirmLogicCall_Validate env msg =
     (case AccAddressFromBech32 env (cl_OrchestratorAddress msg) of
        Inl err \<Rightarrow> Some (Wrap (cl_OrchestratorAddress msg) ErrInvalidAddress)
      | Inr _ \<Rightarrow>
     (case ValidateEthAddress env (cl_EthSigner msg) of
        Some err \<Rightarrow> Some (Wrap ''eth signer'' err)
      | None \<Rightarrow>
     (case snd (hex_DecodeString (cl_Signature msg)) of
        Some err \<Rightarrow> Some (Wrap (''Could not decode hex string '' @ cl_Signature msg) ErrUnknownRequest)
      | None \<Rightarrow>
     (case snd (hex_DecodeString (cl_InvalidationId msg)) of
        Some err \<Rightarrow>
          Some (Wrap (''Could not decode hex string '' @ cl_InvalidationId msg) ErrUnknownRequest)
      | None \<Rightarrow> None))))"

definition ConfirmLogicCall_GetNonce :: "ConfirmLogicCall \<Rightarrow> 64 word" where
  "ConfirmLogicCall_GetNonce msg = 0"

definition ConfirmLogicCall_GetTokenContract :: "ConfirmLogicCall \<Rightarrow> string" where
  "ConfirmLogicCall_GetTokenContract msg = []"

definition NewConfirmValset :: "'a Env_scheme \<Rightarrow> 64 word \<Rightarrow> string \<Rightarrow> byte list \<Rightarrow> string
    \<Rightarrow> ConfirmValset" where
  "NewConfirmValset env nonce ethAddress validator signature =
     \<lparr>cv_Nonce = nonce,
      cv_OrchestratorAddress = AccAddress_String env validator,
      cv_EthAddress = ethAddress,
      cv_Signature = signature\<rparr>"

definition ConfirmValset_GetType :: "ConfirmValset \<Rightarrow> string" where
  "ConfirmValset_GetType msg = ''valset''"

definition ConfirmValset_Validate :: "'a Env_scheme \<Rightarrow> ConfirmValset \<Rightarrow> error option" where
  "ConfirmValset_Validate env msg =
     (case AccAddressFromBech32 env (cv_OrchestratorAddress msg) of
        Inl err \<Rightarrow> Some (Wrap (cv_OrchestratorAddress msg) ErrInvalidAddress)
      | Inr _ \<Rightarrow>
     (case ValidateEthAddress env (cv_EthAddress msg) of
        Some err \<Rightarrow> Some (Wrap ''ethereum address'' err)
      | None \<Rightarrow> None))"

definition ConfirmValset_GetInvalidationNonce :: "ConfirmValset \<Rightarrow> 64 word" where
  "ConfirmValset_GetInvalidationNonce msg = 0"

definition ConfirmValset_GetInvalidationId :: "ConfirmValset \<Rightarrow> string" where
  "ConfirmValset_GetInvalidationId msg = []"

definition ConfirmValset_GetTokenContract :: "ConfirmValset \<Rightarrow> string" where
  "ConfirmValset_GetTokenContract msg = []"

text \<open>An environment for the concrete evaluations below: it accepts one orchestrator
  address and one Ethereum address and rejects every other string.\<close>

definition example_env :: Env where
  "example_env =
     \<lparr>AccAddressFromBech32 =
        (\<lambda>s. if s = ''cosmos1orchestrator'' then Inr [1, 2, 3]
             else Inl (Other ''decoding bech32 failed'')),
      AccAddress_String = (\<lambda>a. ''cosmos1orchestrator''),
      ValidateEthAddress =
        (\<lambda>s. if s = ''0x00000000000000000000000000000000000000EF'' then None
             else Some (Other ''invalid address''))\<rparr>"

section \<open>The outgoing transfer pool\<close>

subsection \<open>The key-value store and the bank\<close>

text \<open>
  The store of the module is a list of key-value pairs; \<open>Set\<close> replaces the value of a key
  that is present.  A reverse iterator of a prefix store visits the keys that begin with
  the prefix in descending byte order.
\<close>

type_synonym kvstore = "(byte list \<times> byte list) list"

definition store_Get :: "kvstore \<Rightarrow> byte list \<Rightarrow> byte list option" where
  "store_Get store key = map_of store key"

fun store_Set :: "kvstore \<Rightarrow> byte list \<Rightarrow> byte list \<Rightarrow> kvstore" where
  "store_Set [] key v = [(key, v)]"
| "store_Set ((k', v') # rest) key v =
     (if k' = key then (key, v) # rest else (k', v') # store_Set rest key v)"

definition store_Delete :: "kvstore \<Rightarrow> byte list \<Rightarrow> kvstore" where
  "store_Delete store key = filter (\<lambda>(k', v'). k' \<noteq> key) store"

definition has_prefix :: "byte list \<Rightarrow> byte list \<Rightarrow> bool" where
  "has_prefix pfx key \<longleftrightarrow> take (length pfx) key = pfx"

definition ReverseIterator :: "kvstore \<Rightarrow> byte list \<Rightarrow> (byte list \<times> byte list) list" where
  "ReverseIterator store pfx = rev (sort_key fst (filter (\<lambda>(key, v). has_prefix pfx key) store))"

text \<open>
  Modelled from the spec: the bank keeper is the custody ledger of section 6, whose
  operations either succeed or leave the state unchanged.  Balances are per account and
  denomination; a set of coins is valid if every amount is positive; taking coins from an
  account fails on invalid coins and on insufficient funds.
\<close>

datatype bank_addr = Account "byte list" | Module string

type_synonym balances = "bank_addr \<Rightarrow> string \<Rightarrow> int"

record Ctx =
  kv :: kvstore
  bank :: balances

definition Coins_IsValid :: "Coin list \<Rightarrow> bool" where
  "Coins_IsValid cs \<longleftrightarrow> list_all (\<lambda>c. 0 < coin_Amount c) cs \<and> distinct (map coin_Denom cs)"

fun bank_sub :: "balances \<Rightarrow> bank_addr \<Rightarrow> Coin list \<Rightarrow> error + balances" where
  "bank_sub b a [] = Inr b"
| "bank_sub b a (c # cs) =
     (if b a (coin_Denom c) < coin_Amount c then Inl ErrInsufficientFunds
      else bank_sub (b(a := (b a)(coin_Denom c := b a (coin_Denom c) - coin_Amount c))) a cs)"

fun bank_add :: "balances \<Rightarrow> bank_addr \<Rightarrow> Coin list \<Rightarrow> balances" where
  "bank_add b a [] = b"
| "bank_add b a (c # cs) =
     bank_add (b(a := (b a)(coin_Denom c := b a (coin_Denom c) + coin_Amount c))) a cs"

definition SendCoins :: "Ctx \<Rightarrow> bank_addr \<Rightarrow> bank_addr \<Rightarrow> Coin list \<Rightarrow> error + Ctx" where
  "SendCoins ctx fromAddr toAddr amt =
     (if \<not> Coins_IsValid amt then Inl ErrInvalidCoins
      else case bank_sub (bank ctx) fromAddr amt of
             Inl err \<Rightarrow> Inl err
           | Inr b \<Rightarrow> Inr (ctx\<lparr>bank := bank_add b toAddr amt\<rparr>))"

definition SendCoinsFromAccountToModule :: "Ctx \<Rightarrow> byte list \<Rightarrow> string \<Rightarrow> Coin list \<Rightarrow> error + Ctx" where
  "SendCoinsFromAccountToModule ctx senderAddr recipientModule amt =
     SendCoins ctx (Account senderAddr) (Module recipientModule) amt"

definition SendCoinsFromModuleToAccount :: "Ctx \<Rightarrow> string \<Rightarrow> byte list \<Rightarrow> Coin list \<Rightarrow> error + Ctx" where
  "SendCoinsFromModuleToAccount ctx senderModule recipientAddr amt =
     SendCoins ctx (Module senderModule) (Account recipientAddr) amt"

definition MintCoins :: "Ctx \<Rightarrow> string \<Rightarrow> Coin list \<Rightarrow> error + Ctx" where
  "MintCoins ctx moduleName amt =
     (if \<not> Coins_IsValid amt then Inl ErrInvalidCoins
      else Inr (ctx\<lparr>bank := bank_add (bank ctx) (Module moduleName) amt\<rparr>))"

definition BurnCoins :: "Ctx \<Rightarrow> string \<Rightarrow> Coin list \<Rightarrow> error + Ctx" where
  "BurnCoins ctx moduleName amt =
     (if \<not> Coins_IsValid amt then Inl ErrInvalidCoins
      else case bank_sub (bank ctx) (Module moduleName) amt of
             Inl err \<Rightarrow> Inl err
           | Inr b \<Rightarrow> Inr (ctx\<lparr>bank := b\<rparr>))"

text \<open>\<open>Coin.Add\<close> of the SDK panics when the denominations differ.\<close>

definition Coin_Add :: "Coin \<Rightarrow> Coin \<Rightarrow> error + Coin" where
  "Coin_Add coin coinB =
     (if coin_Denom coin \<noteq> coin_Denom coinB
      then Inl (InvalidCoinDenominations (coin_Denom coin) (coin_Denom coinB))
      else Inr \<lparr>coin_Denom = coin_Denom coin, coin_Amount = coin_Amount coin + coin_Amount coinB\<rparr>)"

text \<open>\<open>sdk.NewCoins\<close> of one coin drops a zero coin and panics on a negative amount.\<close>

definition NewCoins :: "Coin \<Rightarrow> error + Coin list" where
  "NewCoins c =
     (if coin_Amount c < 0 then Inl NegativeCoinAmount
      else if coin_Amount c = 0 then Inr [] else Inr [c])"

subsection \<open>The keeper\<close>

text \<open>
  The keeper's collaborators that are not among the sources are fields of the keeper: the
  two store prefixes, the module name, the codec, the two asset lookups,
  \<open>ERC20Token.GravityCoin\<close> and the string form of an Ethereum address.
\<close>

record Keeper = Env +
  SendToEthereumKey :: byte
  LastSendToEthereumIDKey :: byte
  ModuleName :: string
  cdc_Marshal :: "SendToEthereum \<Rightarrow> byte list"
  cdc_Unmarshal :: "byte list \<Rightarrow> SendToEthereum option"
  DenomToERC20Lookup :: "Ctx \<Rightarrow> string \<Rightarrow> error + (bool \<times> byte list)"
  ERC20ToDenomLookup :: "Ctx \<Rightarrow> string \<Rightarrow> bool \<times> string"
  GravityCoin :: "ERC20Token \<Rightarrow> Coin"
  Address_Hex :: "byte list \<Rightarrow> string"

text \<open>
  Modelled from the spec: \<open>NewSDKIntERC20Token\<close> is not among the sources.  Section 3: a
  token value is a contract address and an amount.
\<close>

definition NewSDKIntERC20Token :: "Keeper \<Rightarrow> int \<Rightarrow> byte list \<Rightarrow> ERC20Token" where
  "NewSDKIntERC20Token k amount contract =
     \<lparr>tok_Contract = Address_Hex k contract, tok_Amount = amount\<rparr>"

text \<open>
  Modelled from the spec: \<open>GetSendToEthereumKey\<close> is not among the sources.  Section 6: the
  pending-request table is keyed by (destination contract, fee, id) for scoped iteration.
  The key is the store prefix, the 20 bytes of the fee's contract, the fee amount as a
  32-byte big-endian number and the id as 8 big-endian bytes, so that the byte order of
  the keys of one contract is the order of (fee, id).
\<close>

definition GetSendToEthereumKey :: "Keeper \<Rightarrow> 64 word \<Rightarrow> ERC20Token \<Rightarrow> byte list" where
  "GetSendToEthereumKey k i fee =
     [SendToEthereumKey k] @ HexToAddress (tok_Contract fee)
       @ be_bytes 32 (nat \<bar>tok_Amount fee\<bar>) @ be_bytes 8 (unat i)"

definition IncrementLastSendToEthereumIDKey :: "Keeper \<Rightarrow> Ctx \<Rightarrow> (64 word \<times> Ctx) outcome" where
  "IncrementLastSendToEthereumIDKey k ctx =
     (case store_Get (kv ctx) [LastSendToEthereumIDKey k] of
        None \<Rightarrow>
          (let newId = (0 :: 64 word) + 1
           in Ok (newId, ctx\<lparr>kv := store_Set (kv ctx) [LastSendToEthereumIDKey k]
                                     (be_bytes 8 (unat newId))\<rparr>))
      | Some bz \<Rightarrow>
          if length bz < 8 then Panic IndexOutOfRange
          else
            (let lastId = (word_of_nat (be_val (take 8 bz)) :: 64 word);
                 newId = lastId + 1
             in Ok (newId, ctx\<lparr>kv := store_Set (kv ctx) [LastSendToEthereumIDKey k]
                                       (be_bytes 8 (unat newId))\<rparr>)))"

definition SetUnbatchedSendToEthereum :: "Keeper \<Rightarrow> Ctx \<Rightarrow> SendToEthereum \<Rightarrow> Ctx" where
  "SetUnbatchedSendToEthereum k ctx ste =
     ctx\<lparr>kv := store_Set (kv ctx) (GetSendToEthereumKey k (Id ste) (Erc20Fee ste))
                  (cdc_Marshal k ste)\<rparr>"

definition DeleteUnbatchedSendToEthereum :: "Keeper \<Rightarrow> Ctx \<Rightarrow> 64 word \<Rightarrow> ERC20Token \<Rightarrow> Ctx" where
  "DeleteUnbatchedSendToEthereum k ctx i fee =
     ctx\<lparr>kv := store_Delete (kv ctx) (GetSendToEthereumKey k i fee)\<rparr>"

definition CreateSendToEthereum ::
    "Keeper \<Rightarrow> Ctx \<Rightarrow> byte list \<Rightarrow> string \<Rightarrow> Coin \<Rightarrow> Coin \<Rightarrow> 64 word outcome \<times> Ctx" where
  "CreateSendToEthereum k ctx sender counterpartReceiver amount fee =
     (case Coin_Add amount fee of
        Inl err \<Rightarrow> (Panic err, ctx)
      | Inr totalAmount \<Rightarrow>
     (let totalInVouchers = [totalAmount] in
      case DenomToERC20Lookup k ctx (coin_Denom totalAmount) of
        Inl err \<Rightarrow> (Err err, ctx)
      | Inr (isCosmosOriginated, tokenContract) \<Rightarrow>
     (case SendCoinsFromAccountToModule ctx sender (ModuleName k) totalInVouchers of
        Inl err \<Rightarrow> (Panic err, ctx)
      | Inr ctx1 \<Rightarrow>
     (case (if \<not> isCosmosOriginated then BurnCoins ctx1 (ModuleName k) totalInVouchers
            else Inr ctx1) of
        Inl err \<Rightarrow> (Panic err, ctx1)
      | Inr ctx2 \<Rightarrow>
     (case IncrementLastSendToEthereumIDKey k ctx2 of
        Panic err \<Rightarrow> (Panic err, ctx2)
      | Err err \<Rightarrow> (Err err, ctx2)
      | Ok (nextID, ctx3) \<Rightarrow>
          (Ok nextID,
           SetUnbatchedSendToEthereum k ctx3
             \<lparr>Id = nextID,
              Sender = AccAddress_String k sender,
              EthereumRecipient = counterpartReceiver,
              Erc20Token = NewSDKIntERC20Token k (coin_Amount amount) tokenContract,
              Erc20Fee = NewSDKIntERC20Token k (coin_Amount fee) tokenContract\<rparr>))))))"

definition CancelSendToEthereum :: "Keeper \<Rightarrow> Ctx \<Rightarrow> SendToEthereum \<Rightarrow> unit outcome \<times> Ctx" where
  "CancelSendToEthereum k ctx send =
     (let totalToRefund0 = GravityCoin k (Erc20Token send);
          totalToRefund = totalToRefund0
            \<lparr>coin_Amount := coin_Amount totalToRefund0 + tok_Amount (Erc20Fee send)\<rparr>
      in case NewCoins totalToRefund of
           Inl err \<Rightarrow> (Panic err, ctx)
         | Inr totalToRefundCoins \<Rightarrow>
     (let isCosmosOriginated = fst (ERC20ToDenomLookup k ctx (tok_Contract (Erc20Token send)));
          sender = (case AccAddressFromBech32 k (Sender send) of Inl err \<Rightarrow> [] | Inr a \<Rightarrow> a)
      in case (if \<not> isCosmosOriginated then MintCoins ctx (ModuleName k) totalToRefundCoins
               else Inr ctx) of
           Inl err \<Rightarrow> (Err (Wrap ''mint vouchers coins'' err), ctx)
         | Inr ctx1 \<Rightarrow>
     (case SendCoinsFromModuleToAccount ctx1 (ModuleName k) sender totalToRefundCoins of
        Inl err \<Rightarrow> (Err (Wrap ''sending coins from module account'' err), ctx1)
      | Inr ctx2 \<Rightarrow>
          (Ok (), DeleteUnbatchedSendToEthereum k ctx2 (Id send) (Erc20Fee send)))))"

text \<open>
  The loop of the two iteration functions.  The callback is a predicate that tells the
  loop to stop; the result is the list of the requests handed to it, in order.
  \<open>MustUnmarshalBinaryBare\<close> panics on a value that does not decode.
\<close>

fun iterate_cb :: "Keeper \<Rightarrow> (SendToEthereum \<Rightarrow> bool) \<Rightarrow> (byte list \<times> byte list) list
    \<Rightarrow> SendToEthereum list outcome" where
  "iterate_cb k cb [] = Ok []"
| "iterate_cb k cb ((key, v) # rest) =
     (case cdc_Unmarshal k v of
        None \<Rightarrow> Panic UnmarshalFailed
      | Some ste \<Rightarrow>
          if cb ste then Ok [ste]
          else (case iterate_cb k cb rest of
                  Ok stes \<Rightarrow> Ok (ste # stes)
                | Err err \<Rightarrow> Err err
                | Panic err \<Rightarrow> Panic err))"


definition IterateUnbatchedSendToEthereums ::
    "Keeper \<Rightarrow> Ctx \<Rightarrow> (SendToEthereum \<Rightarrow> bool) \<Rightarrow> SendToEthereum list outcome" where
  "IterateUnbatchedSendToEthereums k ctx cb =
     iterate_cb k cb (ReverseIterator (kv ctx) [SendToEthereumKey k])"

definition GetUnbatchedSendToEthereums :: "Keeper \<Rightarrow> Ctx \<Rightarrow> SendToEthereum list outcome" where
  "GetUnbatchedSendToEthereums k ctx = IterateUnbatchedSendToEthereums k ctx (\<lambda>ste. False)"

subsection \<open>Sequences of operations and the state of the pool\<close>

text \<open>
  A submit or a cancel is one message of the host chain.  The host applies a message
  atomically (section 5): the writes of a message that returns an error or panics are
  discarded.
\<close>

datatype pool_op = Submit "byte list" string Coin Coin | Cancel SendToEthereum

fun apply_op :: "Keeper \<Rightarrow> Ctx \<Rightarrow> pool_op \<Rightarrow> 64 word option \<times> Ctx" where
  "apply_op k ctx (Submit sender receiver amount fee) =
     (case CreateSendToEthereum k ctx sender receiver amount fee of
        (Ok nextID, ctx') \<Rightarrow> (Some nextID, ctx')
      | (Err err, ctx') \<Rightarrow> (None, ctx)
      | (Panic err, ctx') \<Rightarrow> (None, ctx))"
| "apply_op k ctx (Cancel send) =
     (case CancelSendToEthereum k ctx send of
        (Ok u, ctx') \<Rightarrow> (None, ctx')
      | (Err err, ctx') \<Rightarrow> (None, ctx)
      | (Panic err, ctx') \<Rightarrow> (None, ctx))"

text \<open>The ids returned by the submits of a sequence, in order, and the final state.\<close>

fun run_ops :: "Keeper \<Rightarrow> Ctx \<Rightarrow> pool_op list \<Rightarrow> 64 word list \<times> Ctx" where
  "run_ops k ctx [] = ([], ctx)"
| "run_ops k ctx (op # ops) =
     (case apply_op k ctx op of
        (r, ctx') \<Rightarrow>
          (case run_ops k ctx' ops of
             (ids, ctx'') \<Rightarrow> ((case r of None \<Rightarrow> ids | Some nextID \<Rightarrow> nextID # ids), ctx'')))"

text \<open>The value of the id counter, and whether the stored counter can be read.\<close>

definition counter_value :: "Keeper \<Rightarrow> Ctx \<Rightarrow> nat" where
  "counter_value k ctx =
     (case store_Get (kv ctx) [LastSendToEthereumIDKey k] of
        None \<Rightarrow> 0
      | Some bz \<Rightarrow> unat (word_of_nat (be_val (take 8 bz)) :: 64 word))"

definition counter_ok :: "Keeper \<Rightarrow> Ctx \<Rightarrow> bool" where
  "counter_ok k ctx =
     (case store_Get (kv ctx) [LastSendToEthereumIDKey k] of
        None \<Rightarrow> True
      | Some bz \<Rightarrow> 8 \<le> length bz)"

text \<open>The ids of the pending requests, read off the last eight bytes of the pool keys.\<close>

definition is_pool_key :: "Keeper \<Rightarrow> byte list \<Rightarrow> bool" where
  "is_pool_key k key \<longleftrightarrow> length key = 61 \<and> take 1 key = [SendToEthereumKey k]"

definition pool_ids :: "Keeper \<Rightarrow> Ctx \<Rightarrow> nat list" where
  "pool_ids k ctx = map (\<lambda>(key, v). be_val (drop 53 key)) (filter (\<lambda>(key, v). is_pool_key k key) (kv ctx))"

definition pool_inv :: "Keeper \<Rightarrow> Ctx \<Rightarrow> bool" where
  "pool_inv k ctx \<longleftrightarrow>
     counter_ok k ctx \<and> distinct (pool_ids k ctx) \<and>
     list_all (\<lambda>i. i \<le> counter_value k ctx) (pool_ids k ctx)"

fun count_submits :: "pool_op list \<Rightarrow> nat" where
  "count_submits [] = 0"
| "count_submits (Submit sender receiver amount fee # ops) = Suc (count_submits ops)"
| "count_submits (Cancel send # ops) = count_submits ops"


subsection \<open>A concrete keeper\<close>

text \<open>
  A keeper for the concrete evaluations below.  It knows one asset native to the source
  chain, \<open>uatom\<close>, represented on the destination chain by the contract ending in
  \<open>aa\<close>, and one foreign asset, the voucher of the contract ending in \<open>bb\<close>.
  \<open>GravityCoin\<close> names the voucher of a contract, as its name says.
\<close>

definition native_contract :: "byte list" where
  "native_contract = [0, 0, 0, 0, 0, 0, 0, 0, 0, 0, 0, 0, 0, 0, 0, 0, 0, 0, 0, 0xAA]"

definition foreign_contract :: "byte list" where
  "foreign_contract = [0, 0, 0, 0, 0, 0, 0, 0, 0, 0, 0, 0, 0, 0, 0, 0, 0, 0, 0, 0xBB]"

definition example_keeper :: Keeper where
  "example_keeper =
     \<lparr>AccAddressFromBech32 =
        (\<lambda>s. if s = ''cosmos1sender'' then Inr [10, 11, 12]
             else Inl (Other ''decoding bech32 failed'')),
      AccAddress_String = (\<lambda>a. ''cosmos1sender''),
      ValidateEthAddress = (\<lambda>s. None),
      SendToEthereumKey = 7,
      LastSendToEthereumIDKey = 14,
      ModuleName = ''gravity'',
      cdc_Marshal = (\<lambda>ste. [ucast (Id ste)]),
      cdc_Unmarshal = (\<lambda>bz. None),
      DenomToERC20Lookup =
        (\<lambda>ctx denom.
           if denom = ''uatom'' then Inr (True, native_contract)
           else if denom = ''gravity0x00000000000000000000000000000000000000bb''
           then Inr (False, foreign_contract)
           else Inl (Other ''denom not a gravity voucher coin'')),
      ERC20ToDenomLookup =
        (\<lambda>ctx contract.
           if contract = ''0x00000000000000000000000000000000000000aa'' then (True, ''uatom'')
           else (False, ''gravity'' @ contract)),
      GravityCoin = (\<lambda>e. \<lparr>coin_Denom = ''gravity'' @ tok_Contract e, coin_Amount = tok_Amount e\<rparr>),
      Address_Hex =
        (\<lambda>a. if a = native_contract then ''0x00000000000000000000000000000000000000aa''
             else ''0x00000000000000000000000000000000000000bb'')\<rparr>"

text \<open>A state with an empty store in which the sender holds 105 \<open>uatom\<close> and 105 of the
  voucher.\<close>

definition example_ctx :: Ctx where
  "example_ctx =
     \<lparr>kv = [],
      bank = (\<lambda>a denom.
        if a = Account [10, 11, 12] \<and>
           (denom = ''uatom'' \<or> denom = ''gravity0x00000000000000000000000000000000000000bb'')
        then 105 else 0)\<rparr>"


text \<open>A pool for the concrete evaluations: two requests for the contract ending in
  \<open>aa\<close>, with fees 5 and 9, and one for the contract ending in \<open>bb\<close>; the codec of
  \<open>pool_keeper\<close> decodes the three values stored for them.\<close>

definition request_a5 :: SendToEthereum where
  "request_a5 =
     \<lparr>Id = 1, Sender = ''cosmos1sender'',
      EthereumRecipient = ''0x00000000000000000000000000000000000000EF'',
      Erc20Token = \<lparr>tok_Contract = ''0x00000000000000000000000000000000000000aa'', tok_Amount = 100\<rparr>,
      Erc20Fee = \<lparr>tok_Contract = ''0x00000000000000000000000000000000000000aa'', tok_Amount = 5\<rparr>\<rparr>"





text \<open>A state whose id counter holds \<open>2 ^ 64 - 2\<close>, and two submits and a cancel for the
  concrete evaluations.\<close>

definition wrap_ctx :: Ctx where
  "wrap_ctx = example_ctx\<lparr>kv := [([14], [255, 255, 255, 255, 255, 255, 255, 254])]\<rparr>"

definition submit_55 :: pool_op where
  "submit_55 = Submit [10, 11, 12] ''0x00000000000000000000000000000000000000EF''
     \<lparr>coin_Denom = ''uatom'', coin_Amount = 50\<rparr> \<lparr>coin_Denom = ''uatom'', coin_Amount = 5\<rparr>"

definition submit_45 :: pool_op where
  "submit_45 = Submit [10, 11, 12] ''0x00000000000000000000000000000000000000EF''
     \<lparr>coin_Denom = ''uatom'', coin_Amount = 40\<rparr> \<lparr>coin_Denom = ''uatom'', coin_Amount = 5\<rparr>"

section \<open>Properties of the checkpoint codec\<close>

lemma length_be_bytes: "length (be_bytes n v) = n"
  by (induction n arbitrary: v) simp_all

lemma be_val_be_bytes: "be_val (be_bytes n v) = v mod 256 ^ n"
proof (induction n arbitrary: v)
  case 0
  then show ?case by simp
next
  case (Suc n)
  have "unat (word_of_nat (v div 256 ^ n) :: byte) = v div 256 ^ n mod 256"
    by (simp add: unat_of_nat)
  moreover have "v mod 256 ^ Suc n = 256 ^ n * (v div 256 ^ n mod 256) + v mod 256 ^ n"
    using mod_mult2_eq [of v "256 ^ n" 256] by (simp add: mult.commute)
  ultimately show ?case
    by (simp add: Suc length_be_bytes del: power_Suc)
qed















lemma typeCheck_dynamic: "typeCheck t v \<Longrightarrow> isDynamicType t = is_dynamic_value v"
  by (cases t; cases v) simp_all

lemma pack_loop_heads:
  "list_all2 typeCheck ts vs \<Longrightarrow>
   pack_loop off ret var (zip ts vs) = Inr (ret @ heads_from off vs @ var @ concat (map abi_tail vs))"
proof (induction ts vs arbitrary: off ret var rule: list_all2_induct)
  case Nil
  then show ?case by simp
next
  case (Cons t ts v vs)
  then show ?case
    by (simp add: typeCheck_dynamic abi_tail_def Let_def)
qed

lemma heads_from_eq:
  "heads_from off vs =
   concat (map (\<lambda>i. if is_dynamic_value (vs ! i)
                      then packNum (int (off + length (concat (map abi_tail (take i vs)))))
                      else pack (vs ! i)) [0..<length vs])"
proof (induction vs arbitrary: off)
  case Nil
  then show ?case by simp
next
  case (Cons v vs)
  have upt: "[0..<length (v # vs)] = 0 # map Suc [0..<length vs]"
    by (simp add: upt_conv_Cons map_Suc_upt del: upt_Suc)
  show ?case
  proof (cases "is_dynamic_value v")
    case True
    then have t: "length (abi_tail v) = length (pack v)" by (simp add: abi_tail_def)
    show ?thesis
      unfolding upt using True
      by (simp add: Cons.IH [of "off + length (pack v)"] o_def t add.assoc cong: if_cong)
  next
    case False
    then have t: "abi_tail v = []" by (simp add: abi_tail_def)
    show ?thesis
      unfolding upt using False
      by (simp add: Cons.IH [of off] o_def t cong: if_cong)
  qed
qed

lemma abi_encode_heads: "abi_encode vs = heads_from (32 * length vs) vs @ concat (map abi_tail vs)"
proof -
  have "abi_head vs = (\<lambda>i. if is_dynamic_value (vs ! i)
                      then packNum (int (32 * length vs + length (concat (map abi_tail (take i vs)))))
                      else pack (vs ! i))"
    by (simp add: fun_eq_iff abi_head_def)
  then show ?thesis
    by (simp add: abi_encode_def heads_from_eq)
qed

lemma Arguments_Pack_encode:
  "list_all2 typeCheck ts vs \<Longrightarrow> Arguments_Pack ts vs = Inr (abi_encode vs)"
proof -
  assume a: "list_all2 typeCheck ts vs"
  then have len: "length ts = length vs" by (rule list_all2_lengthD)
  show ?thesis
    using pack_loop_heads [OF a, of "32 * length ts" "[]" "[]"] len
    by (simp add: Arguments_Pack_def abi_encode_heads)
qed


lemma LogicCallTx_pack:
  "abi_Pack OutgoingLogicCallABI ''checkpoint'' (LogicCallTx_packArgs c g) =
   Inr (method_ID (hd OutgoingLogicCallABI) @ abi_encode (LogicCallTx_packArgs c g))"
proof -
  have "list_all2 typeCheck (method_Inputs (hd OutgoingLogicCallABI)) (LogicCallTx_packArgs c g)"
    by (simp add: OutgoingLogicCallABI_def LogicCallTx_packArgs_def Let_def)
  from Arguments_Pack_encode [OF this] show ?thesis
    by (simp add: abi_Pack_def OutgoingLogicCallABI_def)
qed


lemma strToFixByteArray_too_long:
  "32 < length (bytes_of_string s) \<Longrightarrow> strToFixByteArray s = Inl IdentifierTooLong"
  by (simp add: strToFixByteArray_def)



text \<open>
  C2 (as amended).  For a chain identifier longer than 32 bytes, \<open>GetCheckpoint\<close> of a
  batch and of a logic call does not return: it panics with the error of
  \<open>strToFixByteArray\<close>.  No error value reaches the caller.
\<close>

theorem GetCheckpoint_identifier_too_long_panics:
  assumes "32 < length (bytes_of_string gravityIDstring)"
  shows "BatchTx_GetCheckpoint b gravityIDstring = Panic IdentifierTooLong \<and>
         LogicCallTx_GetCheckpoint c gravityIDstring = Panic IdentifierTooLong"
  by (simp add: BatchTx_GetCheckpoint_def LogicCallTx_GetCheckpoint_def
      strToFixByteArray_too_long [OF assms])

theorem GetCheckpoint_identifier_too_long_panics_witness:
  "32 < length (bytes_of_string (replicate 33 CHR ''g'')) \<and>
   BatchTx_GetCheckpoint
     \<lparr>bt_Nonce = 1, bt_Timeout = 2, bt_Transactions = [], bt_TokenContract = ''0xCC02'',
      bt_Height = 0\<rparr> (replicate 33 CHR ''g'') = Panic IdentifierTooLong \<and>
   LogicCallTx_GetCheckpoint
     \<lparr>lc_Tokens = [], lc_Fees = [], lc_LogicContractAddress = ''0xCC02'', lc_Payload = [],
      lc_Timeout = 2, lc_InvalidationId = [], lc_InvalidationNonce = 1\<rparr>
     (replicate 33 CHR ''g'') = Panic IdentifierTooLong"
proof -
  have h: "32 < length (bytes_of_string (replicate 33 CHR ''g''))"
    by (simp add: bytes_of_string_def)
  show ?thesis
    using h GetCheckpoint_identifier_too_long_panics [OF h] by simp
qed

text \<open>
  The claim C2 as the specification states it, a recoverable \<open>IdentifierTooLong\<close> error
  and never a panic, fails at a batch without transactions and an identifier of 33 bytes.
\<close>

theorem GetCheckpoint_recoverable_error_counterexample:
  "BatchTx_GetCheckpoint
     \<lparr>bt_Nonce = 1, bt_Timeout = 2, bt_Transactions = [], bt_TokenContract = ''0xCC02'',
      bt_Height = 0\<rparr> (replicate 33 CHR ''g'') \<noteq> Err IdentifierTooLong \<and>
   BatchTx_GetCheckpoint
     \<lparr>bt_Nonce = 1, bt_Timeout = 2, bt_Transactions = [], bt_TokenContract = ''0xCC02'',
      bt_Height = 0\<rparr> (replicate 33 CHR ''g'') = Panic IdentifierTooLong"
  by (simp add: BatchTx_GetCheckpoint_def strToFixByteArray_def bytes_of_string_def)


subsection \<open>The domain tags in the hashed payloads\<close>

lemma length_copy32: "length (copy32 src) = 32"
  by (simp add: copy32_def)

lemma BatchTx_payload_tag:
  assumes "length g = 32"
  shows "take 32 (drop 32 (abi_encode (BatchTx_packArgs b g)))
           = copy32 (bytes_of_string ''transactionBatch'')"
  using assms
  by (simp add: abi_encode_heads BatchTx_packArgs_def Let_def RightPadBytes_def length_copy32)

lemma LogicCallTx_payload_tag:
  assumes "length g = 32"
  shows "take 32 (drop 32 (abi_encode (LogicCallTx_packArgs c g)))
           = copy32 (bytes_of_string ''logicCall'')"
  using assms
  by (simp add: abi_encode_heads LogicCallTx_packArgs_def Let_def RightPadBytes_def length_copy32)

lemma domain_tags_differ:
  "copy32 (bytes_of_string ''transactionBatch'') \<noteq> copy32 (bytes_of_string ''logicCall'')"
  by (simp add: copy32_def bytes_of_string_def)

text \<open>The payloads that the two kinds of checkpoint hash differ in their second word,
  the domain tag, whatever the other fields are.\<close>

lemma checkpoint_payloads_differ:
  assumes "length g = 32" and "length g' = 32"
  shows "abi_encode (BatchTx_packArgs b g) \<noteq> abi_encode (LogicCallTx_packArgs c g')"
  using BatchTx_payload_tag [OF assms(1), of b] LogicCallTx_payload_tag [OF assms(2), of c]
    domain_tags_differ
  by metis

section \<open>Properties of the confirmation model\<close>

lemma fromHexChar_digit: "fromHexChar c \<noteq> None \<longleftrightarrow> is_hex_digit c"
proof
  assume "is_hex_digit c"
  then show "fromHexChar c \<noteq> None"
    by (auto simp: is_hex_digit_def fromHexChar_def)
next
  assume a: "fromHexChar c \<noteq> None"
  define n where "n = (of_char c :: nat)"
  have c: "c = char_of n" by (simp add: n_def)
  from a have "n \<in> {48..57} \<union> {97..102} \<union> {65..70}"
    by (auto simp: fromHexChar_def Let_def n_def split: if_splits)
  then have "n \<in> {48, 49, 50, 51, 52, 53, 54, 55, 56, 57, 97, 98, 99, 100, 101, 102, 65, 66, 67, 68, 69, 70}"
    by (auto simp: numeral_eq_Suc le_Suc_eq)
  then show "is_hex_digit c"
    unfolding c is_hex_digit_def by (elim insertE emptyE) (simp_all add: char_of_def bit_0)
qed

lemma hex_DecodeString_ok_iff: "snd (hex_DecodeString s) = None \<longleftrightarrow> valid_hex s"
proof (induction s rule: hex_DecodeString.induct)
  case 1
  then show ?case by (simp add: valid_hex_def)
next
  case (2 p)
  then show ?case by (simp add: valid_hex_def split: option.splits)
next
  case (3 p q rest)
  show ?case
  proof (cases "fromHexChar p")
    case None
    then have "\<not> is_hex_digit p" using fromHexChar_digit [of p] by simp
    with None show ?thesis by (simp add: valid_hex_def)
  next
    case (Some a)
    note pa = Some
    then have hp: "is_hex_digit p" using fromHexChar_digit [of p] by simp
    show ?thesis
    proof (cases "fromHexChar q")
      case None
      then have "\<not> is_hex_digit q" using fromHexChar_digit [of q] by simp
      with None pa show ?thesis by (simp add: valid_hex_def)
    next
      case (Some b)
      then have hq: "is_hex_digit q" using fromHexChar_digit [of q] by simp
      obtain bs e where r: "hex_DecodeString rest = (bs, e)"
        by (cases "hex_DecodeString rest")
      from "3.IH" [OF pa Some] pa Some hp hq r show ?thesis
        by (simp add: valid_hex_def)
    qed
  qed
qed

text \<open>What \<open>Validate\<close> does with the signature of a batch and of a call confirmation
  once the address checks before it have passed.\<close>

lemma ConfirmBatch_Validate_signature:
  assumes "AccAddressFromBech32 env (cb_OrchestratorAddress msg) = Inr a"
    and "ValidateEthAddress env (cb_EthSigner msg) = None"
    and "ValidateEthAddress env (cb_TokenContract msg) = None"
  shows "ConfirmBatch_Validate env msg =
           (if valid_hex (cb_Signature msg) then None
            else Some (Wrap (''could not decode hex string '' @ cb_Signature msg) ErrUnknownRequest))"
  using assms hex_DecodeString_ok_iff [of "cb_Signature msg"]
  by (auto simp: ConfirmBatch_Validate_def split: option.splits)

lemma ConfirmLogicCall_Validate_signature:
  assumes "AccAddressFromBech32 env (cl_OrchestratorAddress msg) = Inr a"
    and "ValidateEthAddress env (cl_EthSigner msg) = None"
    and "valid_hex (cl_InvalidationId msg)"
  shows "ConfirmLogicCall_Validate env msg =
           (if valid_hex (cl_Signature msg) then None
            else Some (Wrap (''Could not decode hex string '' @ cl_Signature msg) ErrUnknownRequest))"
  using assms hex_DecodeString_ok_iff [of "cl_Signature msg"]
    hex_DecodeString_ok_iff [of "cl_InvalidationId msg"]
  by (auto simp: ConfirmLogicCall_Validate_def split: option.splits)

lemma ConfirmValset_Validate_signature_irrelevant:
  "ConfirmValset_Validate env (msg\<lparr>cv_Signature := s\<rparr>) = ConfirmValset_Validate env msg"
  by (simp add: ConfirmValset_Validate_def split: sum.splits option.splits)

text \<open>
  C6.  The claim holds for the batch and the call confirmation and fails for the
  signer-set confirmation: \<open>ConfirmValset.Validate\<close> never looks at the signature.  With
  addresses that pass, the signature \<open>not-hex\<close> is rejected by \<open>ConfirmBatch.Validate\<close>
  and by \<open>ConfirmLogicCall.Validate\<close> and accepted by \<open>ConfirmValset.Validate\<close>.
\<close>

theorem ConfirmValset_Validate_accepts_non_hex_signature:
  "\<not> valid_hex ''not-hex'' \<and>
   snd (hex_DecodeString ''not-hex'') = Some (InvalidByteError CHR ''n'') \<and>
   ConfirmValset_Validate example_env
     \<lparr>cv_Nonce = 1, cv_OrchestratorAddress = ''cosmos1orchestrator'',
      cv_EthAddress = ''0x00000000000000000000000000000000000000EF'',
      cv_Signature = ''not-hex''\<rparr> = None \<and>
   ConfirmBatch_Validate example_env
     \<lparr>cb_Nonce = 1, cb_TokenContract = ''0x00000000000000000000000000000000000000EF'',
      cb_EthSigner = ''0x00000000000000000000000000000000000000EF'',
      cb_OrchestratorAddress = ''cosmos1orchestrator'', cb_Signature = ''not-hex''\<rparr>
     = Some (Wrap ''could not decode hex string not-hex'' ErrUnknownRequest) \<and>
   ConfirmLogicCall_Validate example_env
     \<lparr>cl_InvalidationId = ''00'', cl_InvalidationNonce = 1,
      cl_EthSigner = ''0x00000000000000000000000000000000000000EF'',
      cl_OrchestratorAddress = ''cosmos1orchestrator'', cl_Signature = ''not-hex''\<rparr>
     = Some (Wrap ''Could not decode hex string not-hex'' ErrUnknownRequest)"
  by (simp add: valid_hex_def ConfirmValset_Validate_def ConfirmBatch_Validate_def
      ConfirmLogicCall_Validate_def example_env_def fromHexChar_def)

text \<open>
  C7 (as amended).  An accessor whose field does not apply to the variant returns the
  zero value of its Go type, \<open>0\<close> or the empty string, for every record.
\<close>

theorem Confirm_accessors_not_applicable_return_zero:
  "ConfirmBatch_GetInvalidationNonce b = 0 \<and>
   ConfirmBatch_GetInvalidationId b = [] \<and>
   ConfirmLogicCall_GetNonce c = 0 \<and>
   ConfirmValset_GetInvalidationNonce v = 0 \<and>
   ConfirmValset_GetInvalidationId v = []"
  by (simp add: ConfirmBatch_GetInvalidationNonce_def ConfirmBatch_GetInvalidationId_def
      ConfirmLogicCall_GetNonce_def ConfirmValset_GetInvalidationNonce_def
      ConfirmValset_GetInvalidationId_def)

text \<open>
  The claim C7 as the specification states it fails: the nonce a call confirmation
  reports is the bare \<open>0\<close>, the very value a batch confirmation with nonce zero holds,
  and the invalidation id a batch confirmation reports is the empty string.
\<close>

theorem Confirm_accessors_marker_counterexample:
  "ConfirmLogicCall_GetNonce
     \<lparr>cl_InvalidationId = ''00'', cl_InvalidationNonce = 5,
      cl_EthSigner = ''0x00000000000000000000000000000000000000EF'',
      cl_OrchestratorAddress = ''cosmos1orchestrator'', cl_Signature = ''00''\<rparr>
   = cb_Nonce
     \<lparr>cb_Nonce = 0, cb_TokenContract = ''0x00000000000000000000000000000000000000EF'',
      cb_EthSigner = ''0x00000000000000000000000000000000000000EF'',
      cb_OrchestratorAddress = ''cosmos1orchestrator'', cb_Signature = ''00''\<rparr> \<and>
   ConfirmBatch_GetInvalidationNonce
     \<lparr>cb_Nonce = 3, cb_TokenContract = ''0x00000000000000000000000000000000000000EF'',
      cb_EthSigner = ''0x00000000000000000000000000000000000000EF'',
      cb_OrchestratorAddress = ''cosmos1orchestrator'', cb_Signature = ''00''\<rparr> = 0 \<and>
   ConfirmBatch_GetInvalidationId
     \<lparr>cb_Nonce = 3, cb_TokenContract = ''0x00000000000000000000000000000000000000EF'',
      cb_EthSigner = ''0x00000000000000000000000000000000000000EF'',
      cb_OrchestratorAddress = ''cosmos1orchestrator'', cb_Signature = ''00''\<rparr> = []"
  by (simp add: ConfirmLogicCall_GetNonce_def ConfirmBatch_GetInvalidationNonce_def
      ConfirmBatch_GetInvalidationId_def)


section \<open>Properties of the outgoing transfer pool\<close>

text \<open>
  C9 (as amended).  A submit whose value and fee have different denominations does not
  return: \<open>Coin.Add\<close> panics on the first line of \<open>CreateSendToEthereum\<close>, before
  any lookup, transfer or write, and the state is the one the call started from.
\<close>

theorem CreateSendToEthereum_denom_mismatch_panics:
  assumes "coin_Denom amount \<noteq> coin_Denom fee"
  shows "CreateSendToEthereum k ctx sender counterpartReceiver amount fee =
           (Panic (InvalidCoinDenominations (coin_Denom amount) (coin_Denom fee)), ctx)"
  using assms by (simp add: CreateSendToEthereum_def Coin_Add_def)

theorem CreateSendToEthereum_denom_mismatch_panics_witness:
  "coin_Denom \<lparr>coin_Denom = ''uatom'', coin_Amount = 100\<rparr>
     \<noteq> coin_Denom \<lparr>coin_Denom = ''stake'', coin_Amount = 5\<rparr> \<and>
   CreateSendToEthereum example_keeper example_ctx [10, 11, 12]
       ''0x00000000000000000000000000000000000000EF''
       \<lparr>coin_Denom = ''uatom'', coin_Amount = 100\<rparr> \<lparr>coin_Denom = ''stake'', coin_Amount = 5\<rparr>
     = (Panic (InvalidCoinDenominations ''uatom'' ''stake''), example_ctx)"
proof -
  have h: "coin_Denom \<lparr>coin_Denom = ''uatom'', coin_Amount = 100\<rparr>
     \<noteq> coin_Denom \<lparr>coin_Denom = ''stake'', coin_Amount = 5\<rparr>" by simp
  show ?thesis
    using h CreateSendToEthereum_denom_mismatch_panics [OF h, of example_keeper example_ctx "[10, 11, 12]"
        "''0x00000000000000000000000000000000000000EF''"]
    by simp
qed

text \<open>
  The claim C9 as the specification states it, a recoverable \<open>DenominationMismatch\<close>
  error, fails for a value in \<open>uatom\<close> and a fee in \<open>stake\<close>: the call panics.
\<close>

theorem CreateSendToEthereum_denom_mismatch_counterexample:
  "fst (CreateSendToEthereum example_keeper example_ctx [10, 11, 12]
       ''0x00000000000000000000000000000000000000EF''
       \<lparr>coin_Denom = ''uatom'', coin_Amount = 100\<rparr> \<lparr>coin_Denom = ''stake'', coin_Amount = 5\<rparr>)
     = Panic (InvalidCoinDenominations ''uatom'' ''stake'')"
  by (simp add: CreateSendToEthereum_def Coin_Add_def)

text \<open>
  Where the refund coin that \<open>GravityCoin\<close> builds has the denomination that was
  submitted, submit followed by cancel gives every balance back, on the burn and mint
  path as on the custody path.  This is the case for a voucher of a foreign asset.
\<close>

lemma submit_then_cancel_restores_if_refund_denom_matches:
  assumes create: "CreateSendToEthereum k ctx sender receiver amount fee = (Ok i, ctx1)"
    and lookup: "DenomToERC20Lookup k ctx (coin_Denom amount) = Inr (orig, contract)"
    and lookup_back: "fst (ERC20ToDenomLookup k ctx1 (Address_Hex k contract)) = orig"
    and coin: "GravityCoin k (NewSDKIntERC20Token k (coin_Amount amount) contract)
                = \<lparr>coin_Denom = coin_Denom amount, coin_Amount = coin_Amount amount\<rparr>"
    and addr: "AccAddressFromBech32 k (AccAddress_String k sender) = Inr sender"
    and custody: "0 \<le> bank ctx (Module (ModuleName k)) (coin_Denom amount)"
  shows "\<exists>ctx2. CancelSendToEthereum k ctx1
            \<lparr>Id = i, Sender = AccAddress_String k sender, EthereumRecipient = receiver,
             Erc20Token = NewSDKIntERC20Token k (coin_Amount amount) contract,
             Erc20Fee = NewSDKIntERC20Token k (coin_Amount fee) contract\<rparr> = (Ok (), ctx2)
          \<and> bank ctx2 = bank ctx"
proof -
  let ?d = "coin_Denom amount"
  let ?T = "coin_Amount amount + coin_Amount fee"
  let ?tot = "\<lparr>coin_Denom = ?d, coin_Amount = ?T\<rparr>"
  let ?M = "Module (ModuleName k)"
  let ?S = "Account sender"
  from create lookup obtain ctxa ctxb ctxc where
    dn: "coin_Denom amount = coin_Denom fee"
    and s1: "SendCoins ctx ?S ?M [?tot] = Inr ctxa"
    and s2: "(if \<not> orig then BurnCoins ctxa (ModuleName k) [?tot] else Inr ctxa) = Inr ctxb"
    and s3: "IncrementLastSendToEthereumIDKey k ctxb = Ok (i, ctxc)"
    and s4: "ctx1 = SetUnbatchedSendToEthereum k ctxc
             \<lparr>Id = i, Sender = AccAddress_String k sender, EthereumRecipient = receiver,
              Erc20Token = NewSDKIntERC20Token k (coin_Amount amount) contract,
              Erc20Fee = NewSDKIntERC20Token k (coin_Amount fee) contract\<rparr>"
    by (auto simp: CreateSendToEthereum_def Coin_Add_def Let_def SendCoinsFromAccountToModule_def
        split: sum.splits prod.splits outcome.splits if_splits)
  from s1 have pos: "0 < ?T" and enough: "?T \<le> bank ctx ?S ?d"
    and ba: "bank ctxa = (bank ctx)(?S := (bank ctx ?S)(?d := bank ctx ?S ?d - ?T),
                                     ?M := (bank ctx ?M)(?d := bank ctx ?M ?d + ?T))"
    by (auto simp: SendCoins_def Coins_IsValid_def fun_eq_iff split: if_splits)
  from s3 have bc: "bank ctxc = bank ctxb"
    by (auto simp: IncrementLastSendToEthereumIDKey_def Let_def split: option.splits if_splits)
  from s4 bc have b1: "bank ctx1 = bank ctxb" by (simp add: SetUnbatchedSendToEthereum_def)
  have bb: "bank ctxb = (if orig then bank ctxa
                        else (bank ctxa)(?M := (bank ctxa ?M)(?d := bank ctxa ?M ?d - ?T)))"
    using s2 by (auto simp: BurnCoins_def fun_eq_iff split: if_splits)
  have sel: "tok_Contract (NewSDKIntERC20Token k (coin_Amount amount) contract) = Address_Hex k contract"
    "tok_Amount (NewSDKIntERC20Token k (coin_Amount fee) contract) = coin_Amount fee"
    by (simp_all add: NewSDKIntERC20Token_def)
  have nc: "NewCoins ?tot = Inr [?tot]" using pos by (simp add: NewCoins_def)
  have valid: "Coins_IsValid [?tot]" using pos by (simp add: Coins_IsValid_def)
  show ?thesis
  proof (cases orig)
    case True
    with bb b1 have b: "bank ctx1 = bank ctxa" by simp
    show ?thesis
      using True lookup_back addr custody pos enough
      by (simp add: CancelSendToEthereum_def coin sel nc Let_def
          SendCoinsFromModuleToAccount_def SendCoins_def valid b ba
          DeleteUnbatchedSendToEthereum_def fun_eq_iff)
  next
    case False
    with bb b1 have b: "bank ctx1 = (bank ctxa)(?M := (bank ctxa ?M)(?d := bank ctxa ?M ?d - ?T))"
      by simp
    show ?thesis
      using False lookup_back addr custody pos enough
      by (simp add: CancelSendToEthereum_def coin sel nc Let_def
          MintCoins_def SendCoinsFromModuleToAccount_def SendCoins_def valid b ba
          DeleteUnbatchedSendToEthereum_def fun_eq_iff)
  qed
qed

text \<open>
  C4.  The claim fails for an asset native to the source chain.  The sender holds 105
  \<open>uatom\<close> and submits 100 with a fee of 5: the 105 \<open>uatom\<close> move into the custody of
  the module and stay there.  \<open>CancelSendToEthereum\<close> of the stored request builds the
  refund from \<open>Erc20Token.GravityCoin()\<close>, the voucher of the contract, and drops the
  denomination that \<open>ERC20ToDenomLookup\<close> returns; the module holds no such voucher,
  the transfer fails, and the sender is left with 0 \<open>uatom\<close>.
\<close>

theorem submit_then_cancel_native_asset_not_restored:
  "bank example_ctx (Account [10, 11, 12]) ''uatom'' = 105 \<and>
   (case CreateSendToEthereum example_keeper example_ctx [10, 11, 12]
           ''0x00000000000000000000000000000000000000EF''
           \<lparr>coin_Denom = ''uatom'', coin_Amount = 100\<rparr> \<lparr>coin_Denom = ''uatom'', coin_Amount = 5\<rparr> of
      (r1, ctx1) \<Rightarrow>
        r1 = Ok 1 \<and>
        bank ctx1 (Account [10, 11, 12]) ''uatom'' = 0 \<and>
        bank ctx1 (Module ''gravity'') ''uatom'' = 105 \<and>
        (let send = \<lparr>Id = 1, Sender = ''cosmos1sender'',
                      EthereumRecipient = ''0x00000000000000000000000000000000000000EF'',
                      Erc20Token = \<lparr>tok_Contract = ''0x00000000000000000000000000000000000000aa'',
                                    tok_Amount = 100\<rparr>,
                      Erc20Fee = \<lparr>tok_Contract = ''0x00000000000000000000000000000000000000aa'',
                                  tok_Amount = 5\<rparr>\<rparr>
         in store_Get (kv ctx1) (GetSendToEthereumKey example_keeper 1 (Erc20Fee send))
              = Some (cdc_Marshal example_keeper send) \<and>
            (case CancelSendToEthereum example_keeper ctx1 send of
               (r2, ctx2) \<Rightarrow>
                 r2 = Err (Wrap ''sending coins from module account'' ErrInsufficientFunds) \<and>
                 bank ctx2 (Account [10, 11, 12]) ''uatom'' = 0)))"
  by (simp add: example_ctx_def example_keeper_def CreateSendToEthereum_def Coin_Add_def
      SendCoinsFromAccountToModule_def SendCoins_def Coins_IsValid_def BurnCoins_def
      IncrementLastSendToEthereumIDKey_def store_Get_def SetUnbatchedSendToEthereum_def
      NewSDKIntERC20Token_def CancelSendToEthereum_def NewCoins_def MintCoins_def
      SendCoinsFromModuleToAccount_def DeleteUnbatchedSendToEthereum_def
      GetSendToEthereumKey_def Let_def native_contract_def foreign_contract_def)









lemma length_HexToAddress: "length (HexToAddress s) = 20"
  by (simp add: HexToAddress_def BytesToAddress_def Let_def)















lemma store_Get_Set:
  "store_Get (store_Set s key v) key' = (if key' = key then Some v else store_Get s key')"
  by (induction s) (auto simp: store_Get_def)

lemma store_Get_Delete:
  "store_Get (store_Delete s key) key' = (if key' = key then None else store_Get s key')"
  by (induction s) (auto simp: store_Get_def store_Delete_def)

lemma keys_store_Set:
  "map fst (store_Set s key v) = (if key \<in> set (map fst s) then map fst s else map fst s @ [key])"
  by (induction s) (force simp: image_iff)+

lemma keys_store_Delete: "map fst (store_Delete s key) = filter (\<lambda>k'. k' \<noteq> key) (map fst s)"
  by (induction s) (auto simp: store_Delete_def)

lemma map_filter_keys:
  "map (\<lambda>(key, v). f key) (filter (\<lambda>(key, v). P key) s) = map f (filter P (map fst s))"
  by (induction s) auto

lemma pool_ids_keys:
  "pool_ids k ctx = map (\<lambda>key. be_val (drop 53 key)) (filter (is_pool_key k) (map fst (kv ctx)))"
  by (simp add: pool_ids_def map_filter_keys)

lemma is_pool_key_GetSendToEthereumKey: "is_pool_key k (GetSendToEthereumKey k i fee)"
  by (simp add: is_pool_key_def GetSendToEthereumKey_def length_HexToAddress length_be_bytes)

lemma not_pool_key_counter: "\<not> is_pool_key k [b]"
  by (simp add: is_pool_key_def)

lemma GetSendToEthereumKey_neq_counter: "GetSendToEthereumKey k i fee \<noteq> [b]"
  using is_pool_key_GetSendToEthereumKey [of k i fee] not_pool_key_counter [of k b] by metis

lemma be_val_be_bytes_unat64: "be_val (be_bytes 8 (unat (i :: 64 word))) = unat i"
proof -
  have "unat i < 256 ^ 8" using unsigned_less [of i, where 'a = nat] by simp
  then show ?thesis by (simp add: be_val_be_bytes)
qed

lemma key_id_GetSendToEthereumKey:
  "be_val (drop 53 (GetSendToEthereumKey k i fee)) = unat i"
  by (simp add: GetSendToEthereumKey_def length_HexToAddress length_be_bytes be_val_be_bytes_unat64)

lemma counter_value_Set:
  "counter_value k (ctx\<lparr>kv := store_Set (kv ctx) [LastSendToEthereumIDKey k] (be_bytes 8 (unat (i :: 64 word)))\<rparr>)
     = unat i"
  by (simp add: counter_value_def store_Get_Set length_be_bytes be_val_be_bytes_unat64)

lemma IncrementLastSendToEthereumIDKey_Ok:
  assumes "counter_ok k ctx"
  shows "IncrementLastSendToEthereumIDKey k ctx =
           Ok (word_of_nat (counter_value k ctx) + 1,
               ctx\<lparr>kv := store_Set (kv ctx) [LastSendToEthereumIDKey k]
                      (be_bytes 8 (unat (word_of_nat (counter_value k ctx) + 1 :: 64 word)))\<rparr>)"
  using assms
  by (auto simp: IncrementLastSendToEthereumIDKey_def counter_ok_def counter_value_def Let_def
      split: option.splits)

lemma unat_counter_succ:
  assumes "n + 1 < 2 ^ 64"
  shows "unat (word_of_nat n + 1 :: 64 word) = n + 1"
proof -
  have "unat (word_of_nat (Suc n) :: 64 word) = Suc n mod 2 ^ 64"
    by (simp only: unat_of_nat) simp
  with assms show ?thesis by (simp add: add.commute)
qed


lemma SendCoins_kv: "SendCoins ctx a b amt = Inr ctx' \<Longrightarrow> kv ctx' = kv ctx"
  by (auto simp: SendCoins_def split: if_splits sum.splits)

lemma BurnCoins_kv: "BurnCoins ctx m amt = Inr ctx' \<Longrightarrow> kv ctx' = kv ctx"
  by (auto simp: BurnCoins_def split: if_splits sum.splits)

lemma MintCoins_kv: "MintCoins ctx m amt = Inr ctx' \<Longrightarrow> kv ctx' = kv ctx"
  by (auto simp: MintCoins_def split: if_splits)

lemma counter_kv_cong:
  "kv a = kv b \<Longrightarrow> counter_value k a = counter_value k b \<and> counter_ok k a = counter_ok k b"
  by (simp add: counter_value_def counter_ok_def)

lemma CreateSendToEthereum_kv:
  assumes ok: "counter_ok k ctx"
    and r: "CreateSendToEthereum k ctx sender receiver amount fee = (Ok i, ctx')"
  shows "i = word_of_nat (counter_value k ctx) + 1 \<and>
         (\<exists>fee' v. kv ctx' =
            store_Set (store_Set (kv ctx) [LastSendToEthereumIDKey k] (be_bytes 8 (unat i)))
              (GetSendToEthereumKey k i fee') v)"
proof -
  from r obtain total orig contract ctx1 ctx2 where
    s1: "SendCoinsFromAccountToModule ctx sender (ModuleName k) [total] = Inr ctx1"
    and s2: "(if \<not> orig then BurnCoins ctx1 (ModuleName k) [total] else Inr ctx1) = Inr ctx2"
    and s3: "(case IncrementLastSendToEthereumIDKey k ctx2 of
        Panic err \<Rightarrow> (Panic err, ctx2)
      | Err err \<Rightarrow> (Err err, ctx2)
      | Ok (nextID, ctx3) \<Rightarrow>
          (Ok nextID,
           SetUnbatchedSendToEthereum k ctx3
             \<lparr>Id = nextID,
              Sender = AccAddress_String k sender,
              EthereumRecipient = receiver,
              Erc20Token = NewSDKIntERC20Token k (coin_Amount amount) contract,
              Erc20Fee = NewSDKIntERC20Token k (coin_Amount fee) contract\<rparr>)) = (Ok i, ctx')"
    by (auto simp: CreateSendToEthereum_def Let_def split: sum.splits prod.splits)
  from s1 have k1: "kv ctx1 = kv ctx"
    by (simp add: SendCoinsFromAccountToModule_def SendCoins_kv)
  from s2 have k2: "kv ctx2 = kv ctx1"
    by (auto simp: BurnCoins_kv split: if_splits)
  from k1 k2 have kk: "kv ctx2 = kv ctx" by simp
  with ok have ok2: "counter_ok k ctx2" and cv: "counter_value k ctx2 = counter_value k ctx"
    using counter_kv_cong [of ctx2 ctx k] by simp_all
  from s3 show ?thesis
    unfolding IncrementLastSendToEthereumIDKey_Ok [OF ok2] cv
    by (clarsimp simp: SetUnbatchedSendToEthereum_def kk) (intro exI, rule refl)
qed

lemma CancelSendToEthereum_kv:
  assumes "CancelSendToEthereum k ctx send = (Ok u, ctx')"
  shows "kv ctx' = store_Delete (kv ctx) (GetSendToEthereumKey k (Id send) (Erc20Fee send))"
proof -
  from assms obtain coins ctx1 ctx2 sender where
    s1: "(if \<not> fst (ERC20ToDenomLookup k ctx (tok_Contract (Erc20Token send)))
          then MintCoins ctx (ModuleName k) coins else Inr ctx) = Inr ctx1"
    and s2: "SendCoinsFromModuleToAccount ctx1 (ModuleName k) sender coins = Inr ctx2"
    and s3: "ctx' = DeleteUnbatchedSendToEthereum k ctx2 (Id send) (Erc20Fee send)"
    by (auto simp: CancelSendToEthereum_def Let_def split: sum.splits)
  from s1 have "kv ctx1 = kv ctx" by (auto simp: MintCoins_kv split: if_splits)
  moreover from s2 have "kv ctx2 = kv ctx1"
    by (simp add: SendCoinsFromModuleToAccount_def SendCoins_kv)
  ultimately show ?thesis using s3 by (simp add: DeleteUnbatchedSendToEthereum_def)
qed


lemma submit_step:
  assumes inv: "pool_inv k ctx"
    and nw: "counter_value k ctx + 1 < 2 ^ 64"
    and r: "CreateSendToEthereum k ctx sender receiver amount fee = (Ok i, ctx')"
  shows "unat i = counter_value k ctx + 1 \<and> counter_value k ctx' = counter_value k ctx + 1 \<and>
         pool_inv k ctx'"
proof -
  let ?L = "[LastSendToEthereumIDKey k]"
  let ?c = "counter_value k ctx"
  from inv have ok: "counter_ok k ctx" and d: "distinct (pool_ids k ctx)"
    and le: "\<forall>j \<in> set (pool_ids k ctx). j \<le> ?c"
    by (simp_all add: pool_inv_def list_all_iff)
  from CreateSendToEthereum_kv [OF ok r] obtain fee' v where
    i: "i = word_of_nat ?c + 1"
    and kv': "kv ctx' = store_Set (store_Set (kv ctx) ?L (be_bytes 8 (unat i)))
                (GetSendToEthereumKey k i fee') v"
    by blast
  let ?pk = "GetSendToEthereumKey k i fee'"
  let ?s1 = "store_Set (kv ctx) ?L (be_bytes 8 (unat i))"
  have ui: "unat i = ?c + 1" unfolding i by (rule unat_counter_succ [OF nw])
  have g: "store_Get (kv ctx') ?L = Some (be_bytes 8 (unat i))"
    using GetSendToEthereumKey_neq_counter [of k i fee' "LastSendToEthereumIDKey k"]
    by (simp add: kv' store_Get_Set)
  have cv: "counter_value k ctx' = unat i"
    by (simp add: counter_value_def g length_be_bytes be_val_be_bytes_unat64)
  have ok': "counter_ok k ctx'"
    by (simp add: counter_ok_def g length_be_bytes)
  have f1: "filter (is_pool_key k) (map fst ?s1) = filter (is_pool_key k) (map fst (kv ctx))"
    by (simp add: keys_store_Set not_pool_key_counter)
  have notin: "?pk \<notin> set (map fst ?s1)"
  proof
    assume "?pk \<in> set (map fst ?s1)"
    then have "?pk \<in> set (filter (is_pool_key k) (map fst ?s1))"
      using is_pool_key_GetSendToEthereumKey [of k i fee'] by simp
    then have "?pk \<in> set (filter (is_pool_key k) (map fst (kv ctx)))"
      by (simp only: f1)
    then have "be_val (drop 53 ?pk) \<in> set (pool_ids k ctx)"
      unfolding pool_ids_keys set_map by (rule imageI)
    then have "unat i \<le> ?c" using le by (simp add: key_id_GetSendToEthereumKey)
    with ui show False by simp
  qed
  have keys': "map fst (kv ctx') = map fst ?s1 @ [?pk]"
    unfolding kv' using notin by (simp only: keys_store_Set if_False)
  have ids': "pool_ids k ctx' = pool_ids k ctx @ [unat i]"
    unfolding pool_ids_keys keys'
    using is_pool_key_GetSendToEthereumKey [of k i fee']
    by (simp add: f1 key_id_GetSendToEthereumKey)
  have "unat i \<notin> set (pool_ids k ctx)" using le ui by auto
  with d have d': "distinct (pool_ids k ctx')" by (simp add: ids')
  have le': "\<forall>j \<in> set (pool_ids k ctx'). j \<le> counter_value k ctx'"
    using le ui by (auto simp: ids' cv)
  from ok' d' le' have "pool_inv k ctx'" by (simp add: pool_inv_def list_all_iff)
  with ui cv show ?thesis by simp
qed

lemma cancel_step:
  assumes inv: "pool_inv k ctx"
    and r: "CancelSendToEthereum k ctx send = (Ok u, ctx')"
  shows "counter_value k ctx' = counter_value k ctx \<and> pool_inv k ctx'"
proof -
  let ?L = "[LastSendToEthereumIDKey k]"
  let ?pk = "GetSendToEthereumKey k (Id send) (Erc20Fee send)"
  from inv have ok: "counter_ok k ctx" and d: "distinct (pool_ids k ctx)"
    and le: "\<forall>j \<in> set (pool_ids k ctx). j \<le> counter_value k ctx"
    by (simp_all add: pool_inv_def list_all_iff)
  have kv': "kv ctx' = store_Delete (kv ctx) ?pk" by (rule CancelSendToEthereum_kv [OF r])
  have g: "store_Get (kv ctx') ?L = store_Get (kv ctx) ?L"
    using GetSendToEthereumKey_neq_counter [of k "Id send" "Erc20Fee send" "LastSendToEthereumIDKey k"]
    by (simp add: kv' store_Get_Delete)
  have cv: "counter_value k ctx' = counter_value k ctx" by (simp add: counter_value_def g)
  have ok': "counter_ok k ctx'" using ok by (simp add: counter_ok_def g)
  let ?ks = "filter (is_pool_key k) (map fst (kv ctx))"
  have ids: "pool_ids k ctx = map (\<lambda>key. be_val (drop 53 key)) ?ks"
    by (rule pool_ids_keys)
  have ids': "pool_ids k ctx' = map (\<lambda>key. be_val (drop 53 key)) (filter (\<lambda>k'. k' \<noteq> ?pk) ?ks)"
    by (simp add: pool_ids_keys kv' keys_store_Delete conj_commute)
  have sub: "set (pool_ids k ctx') \<subseteq> set (pool_ids k ctx)"
    unfolding ids ids' by auto
  have d': "distinct (pool_ids k ctx')"
    unfolding ids' using d [unfolded ids] by (rule distinct_map_filter)
  from ok' d' sub le cv have "pool_inv k ctx'"
    by (auto simp: pool_inv_def list_all_iff)
  with cv show ?thesis by simp
qed

lemma apply_op_step:
  assumes inv: "pool_inv k ctx"
    and nw: "counter_value k ctx + count_submits [op] < 2 ^ 64"
    and r: "apply_op k ctx op = (res, ctx')"
  shows "pool_inv k ctx' \<and>
         (case res of
            None \<Rightarrow> counter_value k ctx' = counter_value k ctx
          | Some i \<Rightarrow> unat i = counter_value k ctx + 1 \<and>
                      counter_value k ctx' = counter_value k ctx + 1)"
proof (cases op)
  case (Submit sender receiver amount fee)
  obtain o1 c1 where c: "CreateSendToEthereum k ctx sender receiver amount fee = (o1, c1)"
    by (cases "CreateSendToEthereum k ctx sender receiver amount fee")
  show ?thesis
  proof (cases o1)
    case (Ok i)
    with r c Submit have e: "res = Some i" "ctx' = c1" by simp_all
    from nw Submit have "counter_value k ctx + 1 < 2 ^ 64" by simp
    from submit_step [OF inv this c [unfolded Ok]] e show ?thesis by simp
  next
    case (Err x)
    with r c Submit inv show ?thesis by simp
  next
    case (Panic x)
    with r c Submit inv show ?thesis by simp
  qed
next
  case (Cancel send)
  obtain o1 c1 where c: "CancelSendToEthereum k ctx send = (o1, c1)"
    by (cases "CancelSendToEthereum k ctx send")
  show ?thesis
  proof (cases o1)
    case (Ok u)
    with r c Cancel have e: "res = None" "ctx' = c1" by simp_all
    from cancel_step [OF inv c [unfolded Ok]] e show ?thesis by simp
  next
    case (Err x)
    with r c Cancel inv show ?thesis by simp
  next
    case (Panic x)
    with r c Cancel inv show ?thesis by simp
  qed
qed


lemma run_ops_invariant:
  assumes "pool_inv k ctx" and "counter_value k ctx + count_submits ops < 2 ^ 64"
  shows "sorted_wrt (<) (map unat (fst (run_ops k ctx ops))) \<and>
         (\<forall>i \<in> set (fst (run_ops k ctx ops)). counter_value k ctx < unat i) \<and>
         pool_inv k (snd (run_ops k ctx ops)) \<and>
         counter_value k ctx \<le> counter_value k (snd (run_ops k ctx ops))"
  using assms
proof (induction ops arbitrary: ctx)
  case Nil
  then show ?case by simp
next
  case (Cons op ops)
  obtain res ctx1 where a: "apply_op k ctx op = (res, ctx1)" by (cases "apply_op k ctx op")
  obtain ids ctx2 where rr: "run_ops k ctx1 ops = (ids, ctx2)" by (cases "run_ops k ctx1 ops")
  have split: "count_submits (op # ops) = count_submits [op] + count_submits ops"
    by (cases op) simp_all
  with Cons.prems(2) have b1: "counter_value k ctx + count_submits [op] < 2 ^ 64" by simp
  from apply_op_step [OF Cons.prems(1) b1 a] have inv1: "pool_inv k ctx1"
    and st: "case res of
            None \<Rightarrow> counter_value k ctx1 = counter_value k ctx
          | Some i \<Rightarrow> unat i = counter_value k ctx + 1 \<and>
                      counter_value k ctx1 = counter_value k ctx + 1"
    by simp_all
  have c1: "counter_value k ctx1 \<le> counter_value k ctx + count_submits [op]"
  proof (cases op)
    case (Submit sender receiver amount fee)
    with st show ?thesis by (cases res) simp_all
  next
    case (Cancel send)
    with a have "res = None" by (auto split: prod.splits outcome.splits)
    with st show ?thesis by simp
  qed
  with Cons.prems(2) split have b2: "counter_value k ctx1 + count_submits ops < 2 ^ 64" by simp
  from Cons.IH [OF inv1 b2] rr have ih:
    "sorted_wrt (<) (map unat ids)" "\<forall>i \<in> set ids. counter_value k ctx1 < unat i"
    "pool_inv k ctx2" "counter_value k ctx1 \<le> counter_value k ctx2"
    by simp_all
  show ?case
  proof (cases res)
    case None
    with st have "counter_value k ctx1 = counter_value k ctx" by simp
    with ih None a rr show ?thesis by simp
  next
    case (Some i)
    with st have e: "unat i = counter_value k ctx + 1" "counter_value k ctx1 = counter_value k ctx + 1"
      by simp_all
    with ih Some a rr show ?thesis by auto
  qed
qed

lemma CancelSendToEthereum_counter:
  "counter_value k (snd (CancelSendToEthereum k ctx send)) = counter_value k ctx"
proof -
  let ?pk = "GetSendToEthereumKey k (Id send) (Erc20Fee send)"
  let ?tot = "GravityCoin k (Erc20Token send)
                \<lparr>coin_Amount := coin_Amount (GravityCoin k (Erc20Token send))
                                  + tok_Amount (Erc20Fee send)\<rparr>"
  let ?sender = "case AccAddressFromBech32 k (Sender send) of Inl err \<Rightarrow> [] | Inr a \<Rightarrow> a"
  have del: "store_Get (store_Delete (kv ctx) ?pk) [LastSendToEthereumIDKey k]
                 = store_Get (kv ctx) [LastSendToEthereumIDKey k]"
    using GetSendToEthereumKey_neq_counter [of k "Id send" "Erc20Fee send" "LastSendToEthereumIDKey k"]
    by (simp add: store_Get_Delete)
  show ?thesis
  proof (cases "NewCoins ?tot")
    case (Inl err)
    then show ?thesis by (simp add: CancelSendToEthereum_def Let_def)
  next
    case (Inr coins)
    let ?m = "if \<not> fst (ERC20ToDenomLookup k ctx (tok_Contract (Erc20Token send)))
              then MintCoins ctx (ModuleName k) coins else Inr ctx"
    show ?thesis
    proof (cases ?m)
      case (Inl err)
      with Inr show ?thesis by (simp add: CancelSendToEthereum_def Let_def)
    next
      case m: (Inr ctx1)
      then have k1: "kv ctx1 = kv ctx" by (auto simp: MintCoins_kv split: if_splits)
      show ?thesis
      proof (cases "SendCoinsFromModuleToAccount ctx1 (ModuleName k) ?sender coins")
        case (Inl err)
        with Inr m have "snd (CancelSendToEthereum k ctx send) = ctx1"
          by (simp add: CancelSendToEthereum_def Let_def)
        with k1 show ?thesis by (simp add: counter_value_def)
      next
        case s: (Inr ctx2)
        then have k2: "kv ctx2 = kv ctx1"
          by (simp add: SendCoinsFromModuleToAccount_def SendCoins_kv)
        from Inr m s have "snd (CancelSendToEthereum k ctx send)
                           = DeleteUnbatchedSendToEthereum k ctx2 (Id send) (Erc20Fee send)"
          by (simp add: CancelSendToEthereum_def Let_def)
        with k1 k2 del show ?thesis
          by (simp add: counter_value_def DeleteUnbatchedSendToEthereum_def)
      qed
    qed
  qed
qed

text \<open>
  C5 (as amended).  From a state that satisfies the pool invariant, and as long as the
  64-bit counter does not wrap (the counter plus the number of submits stays below
  \<open>2 ^ 64\<close>), the ids returned by the submits of any sequence of submits and cancels
  are strictly increasing, hence never repeated, and all greater than the counter at the
  start; at most one pending request exists per id in the resulting state; the counter
  never decreases, and a cancel, whatever its outcome, leaves the counter as it was.
\<close>

theorem pool_ids_strictly_increasing_without_wrap:
  assumes "pool_inv k ctx" and "counter_value k ctx + count_submits ops < 2 ^ 64"
  shows "sorted_wrt (<) (map unat (fst (run_ops k ctx ops))) \<and>
         distinct (fst (run_ops k ctx ops)) \<and>
         list_all (\<lambda>i. counter_value k ctx < unat i) (fst (run_ops k ctx ops)) \<and>
         distinct (pool_ids k (snd (run_ops k ctx ops))) \<and>
         counter_value k ctx \<le> counter_value k (snd (run_ops k ctx ops)) \<and>
         counter_value k (snd (CancelSendToEthereum k ctx send)) = counter_value k ctx"
proof -
  from run_ops_invariant [OF assms] have
    s: "sorted_wrt (<) (map unat (fst (run_ops k ctx ops)))"
    and g: "\<forall>i \<in> set (fst (run_ops k ctx ops)). counter_value k ctx < unat i"
    and p: "pool_inv k (snd (run_ops k ctx ops))"
    and c: "counter_value k ctx \<le> counter_value k (snd (run_ops k ctx ops))"
    by simp_all
  from s have "distinct (map unat (fst (run_ops k ctx ops)))"
    by (simp add: strict_sorted_iff)
  then have d: "distinct (fst (run_ops k ctx ops))" by (simp add: distinct_map)
  from p have pd: "distinct (pool_ids k (snd (run_ops k ctx ops)))" by (simp add: pool_inv_def)
  from s d g pd c CancelSendToEthereum_counter [of k ctx send] show ?thesis
    by (simp add: list_all_iff)
qed

lemma example_ctx_inv: "pool_inv example_keeper example_ctx"
  by (simp add: pool_inv_def counter_ok_def counter_value_def pool_ids_def store_Get_def
      example_ctx_def)

theorem pool_ids_strictly_increasing_without_wrap_witness:
  "pool_inv example_keeper example_ctx \<and>
   counter_value example_keeper example_ctx + count_submits [submit_55, Cancel request_a5, submit_45]
     < 2 ^ 64 \<and>
   sorted_wrt (<) (map unat (fst (run_ops example_keeper example_ctx
                                    [submit_55, Cancel request_a5, submit_45]))) \<and>
   distinct (fst (run_ops example_keeper example_ctx [submit_55, Cancel request_a5, submit_45])) \<and>
   distinct (pool_ids example_keeper
               (snd (run_ops example_keeper example_ctx [submit_55, Cancel request_a5, submit_45])))"
proof -
  have b: "counter_value example_keeper example_ctx
             + count_submits [submit_55, Cancel request_a5, submit_45] < 2 ^ 64"
    by (simp add: counter_value_def store_Get_def example_ctx_def submit_55_def submit_45_def)
  from pool_ids_strictly_increasing_without_wrap [OF example_ctx_inv b]
  show ?thesis using example_ctx_inv b by blast
qed

text \<open>
  The claim C5 as the specification states it, for any sequence, fails where the
  counter wraps: from a counter of \<open>2 ^ 64 - 2\<close> two submits return the ids
  \<open>2 ^ 64 - 1\<close> and \<open>0\<close>.
\<close>

theorem pool_ids_wrap_counterexample:
  "pool_inv example_keeper wrap_ctx \<and>
   map unat (fst (run_ops example_keeper wrap_ctx [submit_55, submit_45]))
     = [18446744073709551615, 0]"
proof -
  have inv: "pool_inv example_keeper wrap_ctx"
    by (simp add: pool_inv_def counter_ok_def counter_value_def pool_ids_def store_Get_def
        wrap_ctx_def example_ctx_def example_keeper_def is_pool_key_def)
  have run: "map unat (fst (run_ops example_keeper wrap_ctx [submit_55, submit_45]))
     = [18446744073709551615, 0]"
    by (simp add: wrap_ctx_def example_ctx_def example_keeper_def submit_55_def submit_45_def
        CreateSendToEthereum_def Coin_Add_def SendCoinsFromAccountToModule_def SendCoins_def
        Coins_IsValid_def BurnCoins_def IncrementLastSendToEthereumIDKey_def store_Get_def
        SetUnbatchedSendToEthereum_def NewSDKIntERC20Token_def GetSendToEthereumKey_def
        Let_def length_be_bytes be_val_be_bytes)
  from inv run show ?thesis by simp
qed


end
